theory Spec2Isabelle
  imports Main
begin

section \<open>Overview\<close>

text \<open>
  The module \<^verbatim>\<open>app/models.py\<close> declares the data model of an educational platform:
  six enumerations, twenty-five table classes and eight classes for validation only.
  It has no functions; what it states is declarative: the annotation and the
  \<^verbatim>\<open>Field(...)\<close> keywords of every attribute. This theory takes the declarations over
  as data, one definition per class with the attributes in the order and with the
  keywords of the source, and gives them the meaning they have for validation and for
  the database schema: a validator that interprets annotation and keywords of a field,
  the constructor of a class, which validates or not as the class is declared, and a
  predicate on database states that interprets the keywords that become column
  constraints, with the insertion of a row that respects it. The statements about the
  module are theorems about these, applied to the declarations.
\<close>

section \<open>Enumerations\<close>

text \<open>
  The six enumerations of \<^verbatim>\<open>app/models.py\<close>. Each is declared as
  \<^verbatim>\<open>class X(str, Enum)\<close> with members \<^verbatim>\<open>NAME = "value"\<close>; a member is a
  constructor, its string value is given by the \<open>_value\<close> function, and the list of
  members is in definition order (what iterating the class yields).
\<close>

datatype StudentGrade = GRADE_4 | GRADE_5 | GRADE_6

fun StudentGrade_value :: "StudentGrade \<Rightarrow> string" where
  "StudentGrade_value GRADE_4 = ''4''"
| "StudentGrade_value GRADE_5 = ''5''"
| "StudentGrade_value GRADE_6 = ''6''"

definition StudentGrade_members :: "StudentGrade list" where
  "StudentGrade_members = [GRADE_4, GRADE_5, GRADE_6]"

datatype QuestionDifficulty = EASY | MEDIUM | HARD

fun QuestionDifficulty_value :: "QuestionDifficulty \<Rightarrow> string" where
  "QuestionDifficulty_value EASY = ''easy''"
| "QuestionDifficulty_value MEDIUM = ''medium''"
| "QuestionDifficulty_value HARD = ''hard''"

definition QuestionDifficulty_members :: "QuestionDifficulty list" where
  "QuestionDifficulty_members = [EASY, MEDIUM, HARD]"

datatype QuestionType = MULTIPLE_CHOICE | TRUE_FALSE | SHORT_ANSWER

fun QuestionType_value :: "QuestionType \<Rightarrow> string" where
  "QuestionType_value MULTIPLE_CHOICE = ''multiple_choice''"
| "QuestionType_value TRUE_FALSE = ''true_false''"
| "QuestionType_value SHORT_ANSWER = ''short_answer''"

definition QuestionType_members :: "QuestionType list" where
  "QuestionType_members = [MULTIPLE_CHOICE, TRUE_FALSE, SHORT_ANSWER]"

datatype BadgeType = LEVEL_COMPLETION | STREAK | PERFECT_SCORE | EXPLORER | SCHOLAR

fun BadgeType_value :: "BadgeType \<Rightarrow> string" where
  "BadgeType_value LEVEL_COMPLETION = ''level_completion''"
| "BadgeType_value STREAK = ''streak''"
| "BadgeType_value PERFECT_SCORE = ''perfect_score''"
| "BadgeType_value EXPLORER = ''explorer''"
| "BadgeType_value SCHOLAR = ''scholar''"

definition BadgeType_members :: "BadgeType list" where
  "BadgeType_members = [LEVEL_COMPLETION, STREAK, PERFECT_SCORE, EXPLORER, SCHOLAR]"

datatype MediaType = IMAGE | AUDIO | VIDEO | DOCUMENT | MODEL_3D

fun MediaType_value :: "MediaType \<Rightarrow> string" where
  "MediaType_value IMAGE = ''image''"
| "MediaType_value AUDIO = ''audio''"
| "MediaType_value VIDEO = ''video''"
| "MediaType_value DOCUMENT = ''document''"
| "MediaType_value MODEL_3D = ''model_3d''"

definition MediaType_members :: "MediaType list" where
  "MediaType_members = [IMAGE, AUDIO, VIDEO, DOCUMENT, MODEL_3D]"

datatype ARTriggerType = BANKNOTE | STAMP | TEXTBOOK_IMAGE | QR_CODE

fun ARTriggerType_value :: "ARTriggerType \<Rightarrow> string" where
  "ARTriggerType_value BANKNOTE = ''banknote''"
| "ARTriggerType_value STAMP = ''stamp''"
| "ARTriggerType_value TEXTBOOK_IMAGE = ''textbook_image''"
| "ARTriggerType_value QR_CODE = ''qr_code''"

definition ARTriggerType_members :: "ARTriggerType list" where
  "ARTriggerType_members = [BANKNOTE, STAMP, TEXTBOOK_IMAGE, QR_CODE]"

text \<open>
  \<^verbatim>\<open>X(value)\<close>, the lookup of a member by its value: the first member, in definition
  order, whose value equals the argument; \<open>None\<close> stands for the \<^verbatim>\<open>ValueError\<close>
  raised when there is none.
\<close>

definition enum_by_value :: "('a \<Rightarrow> string) \<Rightarrow> 'a list \<Rightarrow> string \<Rightarrow> 'a option" where
  "enum_by_value value_of ms s = find (\<lambda>m. value_of m = s) ms"

definition StudentGrade_of :: "string \<Rightarrow> StudentGrade option" where
  "StudentGrade_of = enum_by_value StudentGrade_value StudentGrade_members"

definition QuestionDifficulty_of :: "string \<Rightarrow> QuestionDifficulty option" where
  "QuestionDifficulty_of = enum_by_value QuestionDifficulty_value QuestionDifficulty_members"

definition QuestionType_of :: "string \<Rightarrow> QuestionType option" where
  "QuestionType_of = enum_by_value QuestionType_value QuestionType_members"

definition BadgeType_of :: "string \<Rightarrow> BadgeType option" where
  "BadgeType_of = enum_by_value BadgeType_value BadgeType_members"

definition MediaType_of :: "string \<Rightarrow> MediaType option" where
  "MediaType_of = enum_by_value MediaType_value MediaType_members"

definition ARTriggerType_of :: "string \<Rightarrow> ARTriggerType option" where
  "ARTriggerType_of = enum_by_value ARTriggerType_value ARTriggerType_members"

text \<open>The enumeration classes, and a member of any of them, as field types and field values.\<close>

datatype enum_class =
  C_StudentGrade | C_QuestionDifficulty | C_QuestionType | C_BadgeType | C_MediaType
  | C_ARTriggerType

datatype enum_member =
  E_StudentGrade StudentGrade
  | E_QuestionDifficulty QuestionDifficulty
  | E_QuestionType QuestionType
  | E_BadgeType BadgeType
  | E_MediaType MediaType
  | E_ARTriggerType ARTriggerType

fun class_of :: "enum_member \<Rightarrow> enum_class" where
  "class_of (E_StudentGrade m) = C_StudentGrade"
| "class_of (E_QuestionDifficulty m) = C_QuestionDifficulty"
| "class_of (E_QuestionType m) = C_QuestionType"
| "class_of (E_BadgeType m) = C_BadgeType"
| "class_of (E_MediaType m) = C_MediaType"
| "class_of (E_ARTriggerType m) = C_ARTriggerType"

fun member_value :: "enum_member \<Rightarrow> string" where
  "member_value (E_StudentGrade m) = StudentGrade_value m"
| "member_value (E_QuestionDifficulty m) = QuestionDifficulty_value m"
| "member_value (E_QuestionType m) = QuestionType_value m"
| "member_value (E_BadgeType m) = BadgeType_value m"
| "member_value (E_MediaType m) = MediaType_value m"
| "member_value (E_ARTriggerType m) = ARTriggerType_value m"

fun members :: "enum_class \<Rightarrow> enum_member list" where
  "members C_StudentGrade = map E_StudentGrade StudentGrade_members"
| "members C_QuestionDifficulty = map E_QuestionDifficulty QuestionDifficulty_members"
| "members C_QuestionType = map E_QuestionType QuestionType_members"
| "members C_BadgeType = map E_BadgeType BadgeType_members"
| "members C_MediaType = map E_MediaType MediaType_members"
| "members C_ARTriggerType = map E_ARTriggerType ARTriggerType_members"

definition enum_of :: "enum_class \<Rightarrow> string \<Rightarrow> enum_member option" where
  "enum_of c = enum_by_value member_value (members c)"

section \<open>Values, annotations and field declarations\<close>

text \<open>
  \<^verbatim>\<open>Decimal\<close>: a finite decimal number is an integer coefficient and an exponent, the
  number \<open>coefficient * 10 ^ exponent\<close>, as \<^verbatim>\<open>Decimal.as_tuple()\<close> gives it with the
  sign folded into the coefficient: \<^verbatim>\<open>Decimal("0")\<close> is \<open>Decimal 0 0\<close>,
  \<^verbatim>\<open>Decimal("1.0")\<close> is \<open>Decimal 10 (-1)\<close>, \<^verbatim>\<open>Decimal("12.50")\<close> is
  \<open>Decimal 1250 (-2)\<close>.
\<close>

datatype decimal = Decimal (coefficient: int) (exponent: int)

text \<open>
  The Python values a field can hold or be given. A \<^verbatim>\<open>str\<close> is the list of its
  characters, a \<^verbatim>\<open>datetime\<close> a point on an integer time line, a \<^verbatim>\<open>dict\<close> with
  string keys an association list, and a finite \<^verbatim>\<open>float\<close> is its mantissa and binary
  exponent: \<open>VFloat m e\<close> is the number \<open>m * 2 ^ e\<close>, so \<^verbatim>\<open>3.0\<close> is \<open>VFloat 3 0\<close> and
  \<^verbatim>\<open>0.5\<close> is \<open>VFloat 1 (-1)\<close>.
\<close>

datatype val =
  VNone
  | VInt int
  | VStr string
  | VBool bool
  | VFloat int int
  | VDatetime int
  | VDecimal decimal
  | VEnum enum_member
  | VList "val list"
  | VDict "(string \<times> val) list"

text \<open>The type annotations that occur on fields in \<^verbatim>\<open>app/models.py\<close>.\<close>

datatype ann =
  T_int
  | T_str
  | T_bool
  | T_datetime
  | T_Decimal
  | T_Enum enum_class
  | T_List ann
  | T_Dict_str_Any
  | T_Optional ann

text \<open>
  The keyword arguments of \<^verbatim>\<open>Field(...)\<close> that occur in \<^verbatim>\<open>app/models.py\<close>, under
  their own names. \<open>primary_key\<close>, \<open>unique\<close> and \<open>index\<close> stand for the argument set to
  \<^verbatim>\<open>True\<close>, \<open>default_factory_utcnow\<close> for \<^verbatim>\<open>default_factory=datetime.utcnow\<close>,
  \<open>sa_column_JSON\<close> for \<^verbatim>\<open>sa_column=Column(JSON)\<close>. An attribute assigned a plain
  default (\<^verbatim>\<open>x: Optional[int] = None\<close>) carries \<open>default\<close> of that value.
\<close>

datatype kw =
  default val
  | default_factory_utcnow
  | primary_key
  | foreign_key string
  | unique
  | index
  | max_length nat
  | gt int
  | ge int
  | le int
  | max_digits nat
  | decimal_places nat
  | sa_column_JSON

text \<open>
  A field declaration \<^verbatim>\<open>name: annotation = Field(keywords)\<close>, and a model class
  \<^verbatim>\<open>class Name(SQLModel, table=...)\<close> with its fields in declaration order:
  \<open>tablename\<close> is \<^verbatim>\<open>__tablename__\<close> for a class declared with \<^verbatim>\<open>table=True\<close> and
  \<open>None\<close> for one declared with \<^verbatim>\<open>table=False\<close>. \<^verbatim>\<open>Relationship(...)\<close> attributes
  are navigation properties between loaded objects: they declare no column and no
  constraint, and are not part of a model's fields.
\<close>

datatype fld = Field (fname: string) (annotation: ann) (kws: "kw list")

datatype model = SQLModel (model_name: string) (tablename: "string option") (fields: "fld list")

section \<open>The model classes\<close>

definition User :: model where
  "User = SQLModel ''User'' (Some ''users'') [
    Field ''id'' (T_Optional T_int) [default VNone, primary_key],
    Field ''username'' T_str [max_length 50, unique, index],
    Field ''email'' T_str [max_length 255, unique, index],
    Field ''full_name'' T_str [max_length 100],
    Field ''is_teacher'' T_bool [default (VBool False)],
    Field ''created_at'' T_datetime [default_factory_utcnow],
    Field ''updated_at'' T_datetime [default_factory_utcnow]]"

definition StudentProfile :: model where
  "StudentProfile = SQLModel ''StudentProfile'' (Some ''student_profiles'') [
    Field ''id'' (T_Optional T_int) [default VNone, primary_key],
    Field ''user_id'' T_int [foreign_key ''users.id'', unique],
    Field ''grade'' (T_Enum C_StudentGrade) [],
    Field ''school_name'' T_str [max_length 200],
    Field ''total_points'' T_int [default (VInt 0)],
    Field ''current_level'' T_int [default (VInt 1)],
    Field ''streak_days'' T_int [default (VInt 0)],
    Field ''last_activity'' (T_Optional T_datetime) [default VNone]]"

definition TeacherProfile :: model where
  "TeacherProfile = SQLModel ''TeacherProfile'' (Some ''teacher_profiles'') [
    Field ''id'' (T_Optional T_int) [default VNone, primary_key],
    Field ''user_id'' T_int [foreign_key ''users.id'', unique],
    Field ''school_name'' T_str [max_length 200],
    Field ''certification_number'' (T_Optional T_str) [max_length 50],
    Field ''specialization'' (T_Optional T_str) [max_length 100]]"

definition LessonPlan :: model where
  "LessonPlan = SQLModel ''LessonPlan'' (Some ''lesson_plans'') [
    Field ''id'' (T_Optional T_int) [default VNone, primary_key],
    Field ''title'' T_str [max_length 200],
    Field ''description'' T_str [max_length 1000],
    Field ''grade_level'' (T_Enum C_StudentGrade) [],
    Field ''subject'' T_str [max_length 100],
    Field ''duration_minutes'' T_int [gt 0],
    Field ''learning_objectives'' (T_List T_str) [default (VList []), sa_column_JSON],
    Field ''curriculum_alignment'' T_Dict_str_Any [default (VDict []), sa_column_JSON],
    Field ''gamification_elements'' T_Dict_str_Any [default (VDict []), sa_column_JSON],
    Field ''created_by_id'' T_int [foreign_key ''teacher_profiles.id''],
    Field ''created_at'' T_datetime [default_factory_utcnow],
    Field ''updated_at'' T_datetime [default_factory_utcnow],
    Field ''is_validated'' T_bool [default (VBool False)]]"

definition TeachingMaterial :: model where
  "TeachingMaterial = SQLModel ''TeachingMaterial'' (Some ''teaching_materials'') [
    Field ''id'' (T_Optional T_int) [default VNone, primary_key],
    Field ''lesson_plan_id'' T_int [foreign_key ''lesson_plans.id''],
    Field ''title'' T_str [max_length 200],
    Field ''material_type'' (T_Enum C_MediaType) [],
    Field ''file_path'' T_str [max_length 500],
    Field ''description'' (T_Optional T_str) [max_length 500],
    Field ''display_order'' T_int [default (VInt 0)],
    Field ''is_validated'' T_bool [default (VBool False)],
    Field ''created_at'' T_datetime [default_factory_utcnow]]"

definition ActivitySheet :: model where
  "ActivitySheet = SQLModel ''ActivitySheet'' (Some ''activity_sheets'') [
    Field ''id'' (T_Optional T_int) [default VNone, primary_key],
    Field ''lesson_plan_id'' T_int [foreign_key ''lesson_plans.id''],
    Field ''title'' T_str [max_length 200],
    Field ''instructions'' T_str [max_length 2000],
    Field ''activity_type'' T_str [max_length 50],
    Field ''estimated_time_minutes'' T_int [gt 0],
    Field ''materials_needed'' (T_List T_str) [default (VList []), sa_column_JSON],
    Field ''assessment_criteria'' T_Dict_str_Any [default (VDict []), sa_column_JSON],
    Field ''file_path'' (T_Optional T_str) [max_length 500],
    Field ''created_at'' T_datetime [default_factory_utcnow]]"

definition HistoricalPeriod :: model where
  "HistoricalPeriod = SQLModel ''HistoricalPeriod'' (Some ''historical_periods'') [
    Field ''id'' (T_Optional T_int) [default VNone, primary_key],
    Field ''name'' T_str [max_length 100, unique],
    Field ''description'' T_str [max_length 1000],
    Field ''start_year'' (T_Optional T_int) [default VNone],
    Field ''end_year'' (T_Optional T_int) [default VNone],
    Field ''display_order'' T_int [default (VInt 0)],
    Field ''background_image'' (T_Optional T_str) [max_length 500]]"

definition QuizLevel :: model where
  "QuizLevel = SQLModel ''QuizLevel'' (Some ''quiz_levels'') [
    Field ''id'' (T_Optional T_int) [default VNone, primary_key],
    Field ''historical_period_id'' T_int [foreign_key ''historical_periods.id''],
    Field ''level_number'' T_int [gt 0],
    Field ''title'' T_str [max_length 200],
    Field ''description'' T_str [max_length 500],
    Field ''unlock_points_required'' T_int [default (VInt 0)],
    Field ''completion_points_reward'' T_int [gt 0],
    Field ''max_attempts'' (T_Optional T_int) [default (VInt 3)],
    Field ''time_limit_minutes'' (T_Optional T_int) [default VNone]]"

definition QuizQuestion :: model where
  "QuizQuestion = SQLModel ''QuizQuestion'' (Some ''quiz_questions'') [
    Field ''id'' (T_Optional T_int) [default VNone, primary_key],
    Field ''quiz_level_id'' T_int [foreign_key ''quiz_levels.id''],
    Field ''question_text'' T_str [max_length 1000],
    Field ''question_type'' (T_Enum C_QuestionType) [],
    Field ''difficulty'' (T_Enum C_QuestionDifficulty) [],
    Field ''points_value'' T_int [gt 0, default (VInt 10)],
    Field ''explanation'' T_str [max_length 1000],
    Field ''media_url'' (T_Optional T_str) [max_length 500],
    Field ''correct_answer'' T_str [max_length 500],
    Field ''answer_options'' (T_Optional (T_List T_str)) [default (VList []), sa_column_JSON],
    Field ''display_order'' T_int [default (VInt 0)],
    Field ''created_at'' T_datetime [default_factory_utcnow]]"

definition QuizAttempt :: model where
  "QuizAttempt = SQLModel ''QuizAttempt'' (Some ''quiz_attempts'') [
    Field ''id'' (T_Optional T_int) [default VNone, primary_key],
    Field ''student_id'' T_int [foreign_key ''student_profiles.id''],
    Field ''quiz_level_id'' T_int [foreign_key ''quiz_levels.id''],
    Field ''attempt_number'' T_int [gt 0],
    Field ''started_at'' T_datetime [default_factory_utcnow],
    Field ''completed_at'' (T_Optional T_datetime) [default VNone],
    Field ''score'' (T_Optional T_int) [default (VInt 0)],
    Field ''total_points_earned'' T_int [default (VInt 0)],
    Field ''is_completed'' T_bool [default (VBool False)],
    Field ''is_passed'' T_bool [default (VBool False)]]"

definition StudentAnswer :: model where
  "StudentAnswer = SQLModel ''StudentAnswer'' (Some ''student_answers'') [
    Field ''id'' (T_Optional T_int) [default VNone, primary_key],
    Field ''quiz_attempt_id'' T_int [foreign_key ''quiz_attempts.id''],
    Field ''question_id'' T_int [foreign_key ''quiz_questions.id''],
    Field ''student_answer'' T_str [max_length 1000],
    Field ''is_correct'' T_bool [],
    Field ''points_earned'' T_int [default (VInt 0)],
    Field ''answered_at'' T_datetime [default_factory_utcnow],
    Field ''time_taken_seconds'' (T_Optional T_int) [default VNone]]"

definition Badge :: model where
  "Badge = SQLModel ''Badge'' (Some ''badges'') [
    Field ''id'' (T_Optional T_int) [default VNone, primary_key],
    Field ''name'' T_str [max_length 100, unique],
    Field ''description'' T_str [max_length 500],
    Field ''badge_type'' (T_Enum C_BadgeType) [],
    Field ''icon_url'' T_str [max_length 500],
    Field ''criteria'' T_Dict_str_Any [default (VDict []), sa_column_JSON],
    Field ''points_reward'' T_int [default (VInt 0)],
    Field ''is_active'' T_bool [default (VBool True)]]"

definition StudentBadge :: model where
  "StudentBadge = SQLModel ''StudentBadge'' (Some ''student_badges'') [
    Field ''id'' (T_Optional T_int) [default VNone, primary_key],
    Field ''student_id'' T_int [foreign_key ''student_profiles.id''],
    Field ''badge_id'' T_int [foreign_key ''badges.id''],
    Field ''earned_at'' T_datetime [default_factory_utcnow],
    Field ''progress_data'' (T_Optional T_Dict_str_Any) [default (VDict []), sa_column_JSON]]"

definition VocabularyTerm :: model where
  "VocabularyTerm = SQLModel ''VocabularyTerm'' (Some ''vocabulary_terms'') [
    Field ''id'' (T_Optional T_int) [default VNone, primary_key],
    Field ''historical_period_id'' (T_Optional T_int) [foreign_key ''historical_periods.id''],
    Field ''term'' T_str [max_length 100, index],
    Field ''definition'' T_str [max_length 2000],
    Field ''pronunciation'' (T_Optional T_str) [max_length 200],
    Field ''audio_url'' (T_Optional T_str) [max_length 500],
    Field ''etymology'' (T_Optional T_str) [max_length 500],
    Field ''usage_example'' (T_Optional T_str) [max_length 1000],
    Field ''difficulty_level'' (T_Enum C_QuestionDifficulty) [],
    Field ''grade_level'' (T_Enum C_StudentGrade) [],
    Field ''created_at'' T_datetime [default_factory_utcnow]]"

definition VocabularyVisual :: model where
  "VocabularyVisual = SQLModel ''VocabularyVisual'' (Some ''vocabulary_visuals'') [
    Field ''id'' (T_Optional T_int) [default VNone, primary_key],
    Field ''vocabulary_term_id'' T_int [foreign_key ''vocabulary_terms.id''],
    Field ''media_type'' (T_Enum C_MediaType) [],
    Field ''media_url'' T_str [max_length 500],
    Field ''caption'' (T_Optional T_str) [max_length 500],
    Field ''alt_text'' T_str [max_length 300],
    Field ''display_order'' T_int [default (VInt 0)]]"

definition TermConnection :: model where
  "TermConnection = SQLModel ''TermConnection'' (Some ''term_connections'') [
    Field ''id'' (T_Optional T_int) [default VNone, primary_key],
    Field ''source_term_id'' T_int [foreign_key ''vocabulary_terms.id''],
    Field ''target_term_id'' T_int [foreign_key ''vocabulary_terms.id''],
    Field ''relationship_type'' T_str [max_length 50],
    Field ''description'' (T_Optional T_str) [max_length 500],
    Field ''strength'' T_int [default (VInt 1), ge 1, le 5]]"

definition HistoricalFigure :: model where
  "HistoricalFigure = SQLModel ''HistoricalFigure'' (Some ''historical_figures'') [
    Field ''id'' (T_Optional T_int) [default VNone, primary_key],
    Field ''historical_period_id'' (T_Optional T_int) [foreign_key ''historical_periods.id''],
    Field ''name'' T_str [max_length 100, index],
    Field ''birth_year'' (T_Optional T_int) [default VNone],
    Field ''death_year'' (T_Optional T_int) [default VNone],
    Field ''birth_place'' (T_Optional T_str) [max_length 200],
    Field ''occupation'' (T_Optional T_str) [max_length 100],
    Field ''biography_summary'' T_str [max_length 2000],
    Field ''major_contributions'' (T_List T_str) [default (VList []), sa_column_JSON],
    Field ''famous_quotes'' (T_List T_str) [default (VList []), sa_column_JSON],
    Field ''portrait_url'' (T_Optional T_str) [max_length 500],
    Field ''is_featured'' T_bool [default (VBool False)],
    Field ''reading_level'' (T_Enum C_StudentGrade) [],
    Field ''created_at'' T_datetime [default_factory_utcnow]]"

definition DiaryEntry :: model where
  "DiaryEntry = SQLModel ''DiaryEntry'' (Some ''diary_entries'') [
    Field ''id'' (T_Optional T_int) [default VNone, primary_key],
    Field ''historical_figure_id'' T_int [foreign_key ''historical_figures.id''],
    Field ''title'' T_str [max_length 200],
    Field ''entry_text'' T_str [max_length 5000],
    Field ''entry_date'' (T_Optional T_datetime) [default VNone],
    Field ''historical_context'' T_str [max_length 1000],
    Field ''emotional_tone'' (T_Optional T_str) [max_length 50],
    Field ''display_order'' T_int [default (VInt 0)],
    Field ''is_fictional'' T_bool [default (VBool True)],
    Field ''sources'' (T_Optional (T_List T_str)) [default (VList []), sa_column_JSON],
    Field ''created_at'' T_datetime [default_factory_utcnow]]"

definition TimelineEvent :: model where
  "TimelineEvent = SQLModel ''TimelineEvent'' (Some ''timeline_events'') [
    Field ''id'' (T_Optional T_int) [default VNone, primary_key],
    Field ''historical_figure_id'' T_int [foreign_key ''historical_figures.id''],
    Field ''title'' T_str [max_length 200],
    Field ''description'' T_str [max_length 1000],
    Field ''event_date'' (T_Optional T_datetime) [default VNone],
    Field ''event_year'' (T_Optional T_int) [default VNone],
    Field ''importance_level'' T_int [default (VInt 1), ge 1, le 5],
    Field ''location'' (T_Optional T_str) [max_length 200],
    Field ''display_order'' T_int [default (VInt 0)]]"

definition FigureMultimedia :: model where
  "FigureMultimedia = SQLModel ''FigureMultimedia'' (Some ''figure_multimedia'') [
    Field ''id'' (T_Optional T_int) [default VNone, primary_key],
    Field ''historical_figure_id'' T_int [foreign_key ''historical_figures.id''],
    Field ''media_type'' (T_Enum C_MediaType) [],
    Field ''media_url'' T_str [max_length 500],
    Field ''title'' T_str [max_length 200],
    Field ''description'' (T_Optional T_str) [max_length 500],
    Field ''source_attribution'' (T_Optional T_str) [max_length 300],
    Field ''display_order'' T_int [default (VInt 0)],
    Field ''is_primary'' T_bool [default (VBool False)]]"

definition HeroDiaryProgress :: model where
  "HeroDiaryProgress = SQLModel ''HeroDiaryProgress'' (Some ''hero_diary_progress'') [
    Field ''id'' (T_Optional T_int) [default VNone, primary_key],
    Field ''student_id'' T_int [foreign_key ''student_profiles.id''],
    Field ''historical_figure_id'' T_int [foreign_key ''historical_figures.id''],
    Field ''entries_read'' T_int [default (VInt 0)],
    Field ''total_entries'' T_int [default (VInt 0)],
    Field ''completion_percentage'' T_Decimal
      [default (VDecimal (Decimal 0 0)), max_digits 5, decimal_places 2],
    Field ''last_accessed'' T_datetime [default_factory_utcnow],
    Field ''favorite_entries'' (T_List T_int) [default (VList []), sa_column_JSON],
    Field ''notes'' (T_Optional T_str) [max_length 2000]]"

definition ARTrigger :: model where
  "ARTrigger = SQLModel ''ARTrigger'' (Some ''ar_triggers'') [
    Field ''id'' (T_Optional T_int) [default VNone, primary_key],
    Field ''trigger_type'' (T_Enum C_ARTriggerType) [],
    Field ''trigger_name'' T_str [max_length 100],
    Field ''description'' T_str [max_length 500],
    Field ''recognition_data'' T_Dict_str_Any [default (VDict []), sa_column_JSON],
    Field ''is_active'' T_bool [default (VBool True)],
    Field ''created_at'' T_datetime [default_factory_utcnow]]"

definition ARModel :: model where
  "ARModel = SQLModel ''ARModel'' (Some ''ar_models'') [
    Field ''id'' (T_Optional T_int) [default VNone, primary_key],
    Field ''historical_figure_id'' (T_Optional T_int) [foreign_key ''historical_figures.id''],
    Field ''model_name'' T_str [max_length 100],
    Field ''model_file_path'' T_str [max_length 500],
    Field ''texture_file_path'' (T_Optional T_str) [max_length 500],
    Field ''animation_file_path'' (T_Optional T_str) [max_length 500],
    Field ''scale_factor'' T_Decimal
      [default (VDecimal (Decimal 10 (-1))), max_digits 5, decimal_places 3],
    Field ''animation_triggers'' (T_List T_str) [default (VList []), sa_column_JSON],
    Field ''interaction_points'' T_Dict_str_Any [default (VDict []), sa_column_JSON],
    Field ''file_size_mb'' (T_Optional T_Decimal) [max_digits 8, decimal_places 2],
    Field ''created_at'' T_datetime [default_factory_utcnow]]"

definition ARExperience :: model where
  "ARExperience = SQLModel ''ARExperience'' (Some ''ar_experiences'') [
    Field ''id'' (T_Optional T_int) [default VNone, primary_key],
    Field ''ar_trigger_id'' T_int [foreign_key ''ar_triggers.id''],
    Field ''ar_model_id'' T_int [foreign_key ''ar_models.id''],
    Field ''experience_name'' T_str [max_length 100],
    Field ''description'' T_str [max_length 500],
    Field ''interactive_elements'' T_Dict_str_Any [default (VDict []), sa_column_JSON],
    Field ''storytelling_content'' T_Dict_str_Any [default (VDict []), sa_column_JSON],
    Field ''audio_narration_url'' (T_Optional T_str) [max_length 500],
    Field ''duration_seconds'' (T_Optional T_int) [default VNone],
    Field ''grade_level'' (T_Enum C_StudentGrade) [],
    Field ''is_active'' T_bool [default (VBool True)]]"

definition ARSession :: model where
  "ARSession = SQLModel ''ARSession'' (Some ''ar_sessions'') [
    Field ''id'' (T_Optional T_int) [default VNone, primary_key],
    Field ''student_id'' (T_Optional T_int) [foreign_key ''student_profiles.id''],
    Field ''ar_experience_id'' T_int [foreign_key ''ar_experiences.id''],
    Field ''session_start'' T_datetime [default_factory_utcnow],
    Field ''session_end'' (T_Optional T_datetime) [default VNone],
    Field ''duration_seconds'' (T_Optional T_int) [default VNone],
    Field ''interactions_count'' T_int [default (VInt 0)],
    Field ''completion_status'' T_str [default (VStr ''started'')],
    Field ''device_info'' (T_Optional T_Dict_str_Any) [default (VDict []), sa_column_JSON]]"

definition UserCreate :: model where
  "UserCreate = SQLModel ''UserCreate'' None [
    Field ''username'' T_str [max_length 50],
    Field ''email'' T_str [max_length 255],
    Field ''full_name'' T_str [max_length 100],
    Field ''is_teacher'' T_bool [default (VBool False)]]"

definition StudentCreate :: model where
  "StudentCreate = SQLModel ''StudentCreate'' None [
    Field ''grade'' (T_Enum C_StudentGrade) [],
    Field ''school_name'' T_str [max_length 200]]"

definition TeacherCreate :: model where
  "TeacherCreate = SQLModel ''TeacherCreate'' None [
    Field ''school_name'' T_str [max_length 200],
    Field ''certification_number'' (T_Optional T_str) [max_length 50],
    Field ''specialization'' (T_Optional T_str) [max_length 100]]"

definition QuizAttemptCreate :: model where
  "QuizAttemptCreate = SQLModel ''QuizAttemptCreate'' None [
    Field ''quiz_level_id'' T_int []]"

definition StudentAnswerCreate :: model where
  "StudentAnswerCreate = SQLModel ''StudentAnswerCreate'' None [
    Field ''question_id'' T_int [],
    Field ''student_answer'' T_str [max_length 1000]]"

definition VocabularyTermCreate :: model where
  "VocabularyTermCreate = SQLModel ''VocabularyTermCreate'' None [
    Field ''historical_period_id'' (T_Optional T_int) [default VNone],
    Field ''term'' T_str [max_length 100],
    Field ''definition'' T_str [max_length 2000],
    Field ''pronunciation'' (T_Optional T_str) [max_length 200],
    Field ''difficulty_level'' (T_Enum C_QuestionDifficulty) [],
    Field ''grade_level'' (T_Enum C_StudentGrade) []]"

definition HeroDiaryProgressUpdate :: model where
  "HeroDiaryProgressUpdate = SQLModel ''HeroDiaryProgressUpdate'' None [
    Field ''entries_read'' (T_Optional T_int) [default VNone],
    Field ''notes'' (T_Optional T_str) [max_length 2000],
    Field ''favorite_entries'' (T_Optional (T_List T_int)) [default VNone]]"

definition ARSessionCreate :: model where
  "ARSessionCreate = SQLModel ''ARSessionCreate'' None [
    Field ''ar_experience_id'' T_int [],
    Field ''device_info'' (T_Optional T_Dict_str_Any) [default VNone]]"

text \<open>All model classes of the module, in declaration order.\<close>

definition schema :: "model list" where
  "schema = [User, StudentProfile, TeacherProfile, LessonPlan, TeachingMaterial, ActivitySheet,
     HistoricalPeriod, QuizLevel, QuizQuestion, QuizAttempt, StudentAnswer, Badge,
     StudentBadge, VocabularyTerm, VocabularyVisual, TermConnection, HistoricalFigure,
     DiaryEntry, TimelineEvent, FigureMultimedia, HeroDiaryProgress, ARTrigger, ARModel,
     ARExperience, ARSession, UserCreate, StudentCreate, TeacherCreate, QuizAttemptCreate,
     StudentAnswerCreate, VocabularyTermCreate, HeroDiaryProgressUpdate, ARSessionCreate]"

section \<open>Validation of input data against a model class\<close>

text \<open>
  The meaning of the declarations is that of the libraries they are written for:
  validating input data against a model class (\<^verbatim>\<open>Model.model_validate(data)\<close>, and the
  constructor of a class declared with \<^verbatim>\<open>table=False\<close>) takes each declared field in
  turn, uses the declared default when the input has no entry for it, brings the value
  to the annotated type, and checks the result against the constraint keywords of the
  field. All failures are collected, and the input is accepted when there is none. A
  field that declares no default is required, whether its annotation is
  \<^verbatim>\<open>Optional\<close> or not; entries of the input that name no field are ignored.

  Validation is lax: a value that is not of the annotated scalar type is converted
  where the library has a conversion (the string \<^verbatim>\<open>"3"\<close>, \<^verbatim>\<open>True\<close> and \<^verbatim>\<open>3.0\<close> all
  become the \<^verbatim>\<open>int\<close> 3, 1 and 3), and the constraints are checked on the converted
  value. The conversions are a parameter \<open>lax\<close> of the validator: for an annotation and
  a value that is not of that type it gives the converted value, or \<open>None\<close> where
  there is no conversion. What is proved of the validator holds for any table of
  conversions.
\<close>

type_synonym lax = "ann \<Rightarrow> val \<Rightarrow> val option"

datatype field_error = Missing | Wrong_type | Violates kw

text \<open>A value is an instance of a scalar type.\<close>

fun of_type :: "ann \<Rightarrow> val \<Rightarrow> bool" where
  "of_type T_int (VInt n) = True"
| "of_type T_str (VStr s) = True"
| "of_type T_bool (VBool b) = True"
| "of_type T_datetime (VDatetime t) = True"
| "of_type T_Decimal (VDecimal d) = True"
| "of_type a v = False"

text \<open>
  The value of a scalar type for an input value: the value itself when it is of the
  type, else its conversion, which has to be of the type.
\<close>

definition validate_scalar :: "lax \<Rightarrow> ann \<Rightarrow> val \<Rightarrow> val option" where
  "validate_scalar lax a v =
     (if of_type a v then Some v
      else (case lax a v of
              None \<Rightarrow> None
            | Some w \<Rightarrow> (if of_type a w then Some w else None)))"

text \<open>
  The value of the annotated type for an input value; \<open>None\<close> when there is none.
  \<^verbatim>\<open>Optional[T]\<close> admits \<^verbatim>\<open>None\<close>; an enumeration admits its members and the strings
  that are the value of a member; a list is validated element by element.
\<close>

fun validate_type :: "lax \<Rightarrow> ann \<Rightarrow> val \<Rightarrow> val option" where
  "validate_type lax (T_Enum c) v =
     (case v of
        VStr s \<Rightarrow> map_option VEnum (enum_of c s)
      | VEnum m \<Rightarrow> (if class_of m = c then Some v else None)
      | _ \<Rightarrow> None)"
| "validate_type lax (T_List a) v =
     (case v of
        VList xs \<Rightarrow> map_option VList (those (map (validate_type lax a) xs))
      | _ \<Rightarrow> None)"
| "validate_type lax T_Dict_str_Any v = (case v of VDict kvs \<Rightarrow> Some v | _ \<Rightarrow> None)"
| "validate_type lax (T_Optional a) v = (if v = VNone then Some VNone else validate_type lax a v)"
| "validate_type lax a v = validate_scalar lax a v"

text \<open>No conversion at all: the table of conversions of strict validation.\<close>

definition no_conversion :: lax where
  "no_conversion a v = None"

text \<open>
  Three conversions of lax mode, to \<^verbatim>\<open>int\<close>: from a \<^verbatim>\<open>bool\<close>, from a string that is a
  decimal numeral with an optional sign, and from a float without fractional part. They
  serve as a concrete table of conversions where one is needed.
\<close>

definition digit_of :: "char \<Rightarrow> nat option" where
  "digit_of c = map_of (zip ''0123456789'' [0 ..< 10]) c"

fun parse_digits :: "nat \<Rightarrow> string \<Rightarrow> nat option" where
  "parse_digits acc [] = Some acc"
| "parse_digits acc (c # cs) =
     (case digit_of c of None \<Rightarrow> None | Some k \<Rightarrow> parse_digits (10 * acc + k) cs)"

fun parse_int :: "string \<Rightarrow> int option" where
  "parse_int [] = None"
| "parse_int (c # cs) =
     (if c = CHR ''-'' then (if cs = [] then None else map_option (\<lambda>n. - int n) (parse_digits 0 cs))
      else if c = CHR ''+'' then (if cs = [] then None else map_option int (parse_digits 0 cs))
      else map_option int (parse_digits 0 (c # cs)))"

definition float_to_int :: "int \<Rightarrow> int \<Rightarrow> int option" where
  "float_to_int m e =
     (if 0 \<le> e then Some (m * 2 ^ nat e)
      else if m mod 2 ^ nat (- e) = 0 then Some (m div 2 ^ nat (- e))
      else None)"

fun int_conversions :: lax where
  "int_conversions T_int (VBool b) = Some (VInt (if b then 1 else 0))"
| "int_conversions T_int (VStr s) = map_option VInt (parse_int s)"
| "int_conversions T_int (VFloat m e) = map_option VInt (float_to_int m e)"
| "int_conversions a v = None"

text \<open>
  The digits of a decimal number, as the constraints \<^verbatim>\<open>max_digits\<close> and
  \<^verbatim>\<open>decimal_places\<close> count them: with a non-negative exponent the number has no decimal
  place and its digits are those of the coefficient and the trailing zeros; with a
  negative exponent it has as many decimal places as the exponent says, and at least as
  many digits. The digits before the decimal point are the digits that are not decimal
  places.
\<close>

fun ndigits :: "nat \<Rightarrow> nat" where
  "ndigits n = (if n < 10 then 1 else Suc (ndigits (n div 10)))"

declare ndigits.simps [simp del]

definition dec_decimals :: "decimal \<Rightarrow> nat" where
  "dec_decimals d = (if 0 \<le> exponent d then 0 else nat (- exponent d))"

definition dec_digits :: "decimal \<Rightarrow> nat" where
  "dec_digits d =
     (if 0 \<le> exponent d then ndigits (nat \<bar>coefficient d\<bar>) + nat (exponent d)
      else max (ndigits (nat \<bar>coefficient d\<bar>)) (nat (- exponent d)))"

definition whole_digits :: "decimal \<Rightarrow> nat" where
  "whole_digits d = dec_digits d - dec_decimals d"

text \<open>
  \<^verbatim>\<open>Decimal.normalize()\<close>: the same number without trailing zeros in the coefficient;
  zero becomes \<^verbatim>\<open>Decimal("0")\<close>.
\<close>

function strip_zeros :: "int \<Rightarrow> int \<Rightarrow> decimal" where
  "strip_zeros c e =
     (if c \<noteq> 0 \<and> c mod 10 = 0 then strip_zeros (c div 10) (e + 1) else Decimal c e)"
  by pat_completeness auto
termination
  by (relation "measure (\<lambda>(c, e). nat \<bar>c\<bar>)") auto

declare strip_zeros.simps [simp del]

definition Decimal_normalize :: "decimal \<Rightarrow> decimal" where
  "Decimal_normalize d =
     (if coefficient d = 0 then Decimal 0 0 else strip_zeros (coefficient d) (exponent d))"

fun max_digits_of :: "kw list \<Rightarrow> nat option" where
  "max_digits_of [] = None"
| "max_digits_of (max_digits n # ks) = Some n"
| "max_digits_of (k # ks) = max_digits_of ks"


text \<open>
  One constraint keyword of a field, checked on a value of the field (\<open>ks\<close> are all the
  keywords of the field): \<open>max_length\<close> bounds the length of a string; \<open>gt\<close>, \<open>ge\<close> and
  \<open>le\<close> bound an integer; \<open>max_digits\<close> bounds the digits of a decimal, and
  \<open>decimal_places\<close> its decimal places and, together with \<open>max_digits\<close>, the digits
  before the decimal point. A bound on digits is violated only when both the decimal as
  it is given and its normalised form exceed it, so \<^verbatim>\<open>Decimal("1.000")\<close> has at most two
  decimal places and \<^verbatim>\<open>Decimal("0E+10")\<close> at most five digits. The other keywords, and
  any keyword on \<^verbatim>\<open>None\<close>, constrain nothing.
\<close>

fun check_kw :: "kw list \<Rightarrow> kw \<Rightarrow> val \<Rightarrow> bool" where
  "check_kw ks (max_length n) (VStr s) = (length s \<le> n)"
| "check_kw ks (gt k) (VInt n) = (k < n)"
| "check_kw ks (ge k) (VInt n) = (k \<le> n)"
| "check_kw ks (le k) (VInt n) = (n \<le> k)"
| "check_kw ks (max_digits md) (VDecimal d) =
     (dec_digits d \<le> md \<or> dec_digits (Decimal_normalize d) \<le> md)"
| "check_kw ks (decimal_places dp) (VDecimal d) =
     ((dec_decimals d \<le> dp \<or> dec_decimals (Decimal_normalize d) \<le> dp)
      \<and> (case max_digits_of ks of
            None \<Rightarrow> True
          | Some md \<Rightarrow>
              whole_digits d \<le> md - dp \<or> whole_digits (Decimal_normalize d) \<le> md - dp))"
| "check_kw ks k v = True"

text \<open>
  The default of a field: the first of \<^verbatim>\<open>default\<close> and \<^verbatim>\<open>default_factory\<close> among its
  keywords; \<open>now\<close> is what \<^verbatim>\<open>datetime.utcnow()\<close> returns at the time of the call. A
  default is used as it is, without validation.
\<close>

fun default_value :: "int \<Rightarrow> kw list \<Rightarrow> val option" where
  "default_value now [] = None"
| "default_value now (default v # ks) = Some v"
| "default_value now (default_factory_utcnow # ks) = Some (VDatetime now)"
| "default_value now (k # ks) = default_value now ks"

definition validate_value :: "lax \<Rightarrow> fld \<Rightarrow> val \<Rightarrow> field_error + val" where
  "validate_value lax f v =
     (case validate_type lax (annotation f) v of
        None \<Rightarrow> Inl Wrong_type
      | Some v' \<Rightarrow>
          (case filter (\<lambda>k. \<not> check_kw (kws f) k v') (kws f) of
             [] \<Rightarrow> Inr v'
           | k # _ \<Rightarrow> Inl (Violates k)))"

definition validate_field :: "lax \<Rightarrow> int \<Rightarrow> fld \<Rightarrow> val option \<Rightarrow> field_error + val" where
  "validate_field lax now f supplied =
     (case supplied of
        None \<Rightarrow>
          (case default_value now (kws f) of None \<Rightarrow> Inl Missing | Some v \<Rightarrow> Inr v)
      | Some v \<Rightarrow> validate_value lax f v)"

text \<open>
  A validated object is the list of its field values in declaration order; the input
  is a dictionary. \<open>validate_fields\<close> returns the failures, each under the name of its
  field, and the values of the fields that passed.
\<close>

type_synonym row = "(string \<times> val) list"

fun validate_fields ::
  "lax \<Rightarrow> int \<Rightarrow> fld list \<Rightarrow> (string \<rightharpoonup> val) \<Rightarrow> (string \<times> field_error) list \<times> row" where
  "validate_fields lax now [] inp = ([], [])"
| "validate_fields lax now (f # fs) inp =
     (case validate_fields lax now fs inp of
        (errs, r) \<Rightarrow>
          (case validate_field lax now f (inp (fname f)) of
             Inl e \<Rightarrow> ((fname f, e) # errs, r)
           | Inr v \<Rightarrow> (errs, (fname f, v) # r)))"

definition validate_model ::
  "lax \<Rightarrow> int \<Rightarrow> model \<Rightarrow> (string \<rightharpoonup> val) \<Rightarrow> (string \<times> field_error) list + row" where
  "validate_model lax now m inp =
     (case validate_fields lax now (fields m) inp of
        ([], r) \<Rightarrow> Inr r
      | (e # errs, r) \<Rightarrow> Inl (e # errs))"

text \<open>The value of an attribute of an object; an attribute the object lacks reads as \<^verbatim>\<open>None\<close>.\<close>

definition column :: "string \<Rightarrow> row \<Rightarrow> val" where
  "column n r = (case map_of r n of None \<Rightarrow> VNone | Some v \<Rightarrow> v)"

section \<open>Constructing an object\<close>

text \<open>
  \<^verbatim>\<open>Model(**kwargs)\<close>. The constructor of a class declared with \<^verbatim>\<open>table=False\<close>
  validates its arguments. The constructor of a class declared with \<^verbatim>\<open>table=True\<close>
  does not: every field takes the argument given for it as it is, its default when no
  argument is given, and stays unset, reading as \<^verbatim>\<open>None\<close>, when it has neither. It
  never fails.
\<close>

definition construct ::
  "lax \<Rightarrow> int \<Rightarrow> model \<Rightarrow> (string \<rightharpoonup> val) \<Rightarrow> (string \<times> field_error) list + row" where
  "construct lax now m kwargs =
     (case tablename m of
        None \<Rightarrow> validate_model lax now m kwargs
      | Some t \<Rightarrow>
          Inr (map (\<lambda>f. (fname f,
                 (case kwargs (fname f) of
                    Some v \<Rightarrow> v
                  | None \<Rightarrow> (case default_value now (kws f) of Some v \<Rightarrow> v | None \<Rightarrow> VNone))))
               (fields m)))"

section \<open>The database state and the constraints the declarations put on it\<close>

text \<open>
  A database state gives, for each table name, the rows of the table. The declarations
  of a table class constrain it: a column is nullable when its annotation is
  \<^verbatim>\<open>Optional\<close> and it is not a primary key (a column given as
  \<^verbatim>\<open>sa_column=Column(JSON)\<close> is nullable as well); \<open>primary_key\<close> and \<open>unique\<close> make the
  values of the column distinct (\<open>unique\<close>: those that are not null); a
  \<open>foreign_key\<close> \<^verbatim>\<open>"table.column"\<close> makes every value that is not null the value of that
  column in some row of that table.
\<close>

type_synonym db = "string \<Rightarrow> row list"

definition empty_db :: db where
  "empty_db = (\<lambda>t. [])"

definition ref_table :: "string \<Rightarrow> string" where
  "ref_table ref = takeWhile (\<lambda>c. c \<noteq> CHR ''.'') ref"

definition ref_column :: "string \<Rightarrow> string" where
  "ref_column ref = drop 1 (dropWhile (\<lambda>c. c \<noteq> CHR ''.'') ref)"

definition nullable :: "fld \<Rightarrow> bool" where
  "nullable f =
     (sa_column_JSON \<in> set (kws f)
      \<or> (case annotation f of T_Optional a \<Rightarrow> primary_key \<notin> set (kws f) | _ \<Rightarrow> False))"

fun kw_holds :: "db \<Rightarrow> val list \<Rightarrow> kw \<Rightarrow> bool" where
  "kw_holds db col primary_key = distinct col"
| "kw_holds db col unique = distinct (filter (\<lambda>v. v \<noteq> VNone) col)"
| "kw_holds db col (foreign_key ref) =
     list_all (\<lambda>v. v = VNone \<or> v \<in> set (map (column (ref_column ref)) (db (ref_table ref)))) col"
| "kw_holds db col k = True"

definition column_constraints :: "db \<Rightarrow> row list \<Rightarrow> fld \<Rightarrow> bool" where
  "column_constraints db rs f =
     ((nullable f \<or> VNone \<notin> set (map (column (fname f)) rs))
      \<and> list_all (kw_holds db (map (column (fname f)) rs)) (kws f))"

definition table_constraints :: "db \<Rightarrow> model \<Rightarrow> bool" where
  "table_constraints db m =
     (case tablename m of
        None \<Rightarrow> True
      | Some t \<Rightarrow> list_all (column_constraints db (db t)) (fields m))"

definition satisfies_constraints :: "db \<Rightarrow> bool" where
  "satisfies_constraints db = list_all (table_constraints db) schema"

text \<open>
  A row of a table is valid when it has the columns of the class and every value passes
  the validation of its field unchanged: it is of the annotated type and within the
  declared bounds.
\<close>

definition row_valid :: "model \<Rightarrow> row \<Rightarrow> bool" where
  "row_valid m r =
     (map fst r = map fname (fields m)
      \<and> list_all
          (\<lambda>f. validate_value no_conversion f (column (fname f) r) = Inr (column (fname f) r))
          (fields m))"

definition table_valid :: "db \<Rightarrow> model \<Rightarrow> bool" where
  "table_valid db m =
     (case tablename m of None \<Rightarrow> True | Some t \<Rightarrow> list_all (row_valid m) (db t))"

definition satisfies_schema :: "db \<Rightarrow> bool" where
  "satisfies_schema db = (satisfies_constraints db \<and> list_all (table_valid db) schema)"






text \<open>
  A user who is both a student and a teacher: one row of \<^verbatim>\<open>users\<close>, and a row of
  \<^verbatim>\<open>student_profiles\<close> and a row of \<^verbatim>\<open>teacher_profiles\<close> that both refer to it.
\<close>

definition user_ana :: row where
  "user_ana = [(''id'', VInt 1), (''username'', VStr ''ana''), (''email'', VStr ''a@x.com''),
     (''full_name'', VStr ''Ana''), (''is_teacher'', VBool False),
     (''created_at'', VDatetime 0), (''updated_at'', VDatetime 0)]"

definition student_ana :: row where
  "student_ana = [(''id'', VInt 1), (''user_id'', VInt 1),
     (''grade'', VEnum (E_StudentGrade GRADE_4)), (''school_name'', VStr ''SDN 1''),
     (''total_points'', VInt 0), (''current_level'', VInt 1), (''streak_days'', VInt 0),
     (''last_activity'', VNone)]"

definition teacher_ana :: row where
  "teacher_ana = [(''id'', VInt 1), (''user_id'', VInt 1), (''school_name'', VStr ''SDN 1''),
     (''certification_number'', VNone), (''specialization'', VNone)]"

definition db_both_profiles :: db where
  "db_both_profiles = empty_db
     (''users'' := [user_ana],
      ''student_profiles'' := [student_ana],
      ''teacher_profiles'' := [teacher_ana])"

text \<open>A vocabulary term and a connection from the term to itself.\<close>

definition term_majapahit :: row where
  "term_majapahit = [(''id'', VInt 1), (''historical_period_id'', VNone),
     (''term'', VStr ''Majapahit''), (''definition'', VStr ''A kingdom''),
     (''pronunciation'', VNone), (''audio_url'', VNone), (''etymology'', VNone),
     (''usage_example'', VNone), (''difficulty_level'', VEnum (E_QuestionDifficulty EASY)),
     (''grade_level'', VEnum (E_StudentGrade GRADE_4)), (''created_at'', VDatetime 0)]"

definition self_connection :: row where
  "self_connection = [(''id'', VInt 1), (''source_term_id'', VInt 1),
     (''target_term_id'', VInt 1), (''relationship_type'', VStr ''related_to''),
     (''description'', VNone), (''strength'', VInt 1)]"

definition db_self_loop :: db where
  "db_self_loop = empty_db
     (''vocabulary_terms'' := [term_majapahit],
      ''term_connections'' := [self_connection])"

text \<open>A historical period and a quiz level of it that has no limit of attempts.\<close>

definition period_kingdoms :: row where
  "period_kingdoms = [(''id'', VInt 1), (''name'', VStr ''Kingdoms''),
     (''description'', VStr ''Hindu-Buddhist kingdoms''), (''start_year'', VNone),
     (''end_year'', VNone), (''display_order'', VInt 0), (''background_image'', VNone)]"

definition level_unlimited :: row where
  "level_unlimited = [(''id'', VInt 1), (''historical_period_id'', VInt 1),
     (''level_number'', VInt 1), (''title'', VStr ''Level 1''),
     (''description'', VStr ''First level''), (''unlock_points_required'', VInt 0),
     (''completion_points_reward'', VInt 10), (''max_attempts'', VNone),
     (''time_limit_minutes'', VNone)]"

definition db_unlimited_level :: db where
  "db_unlimited_level = empty_db
     (''historical_periods'' := [period_kingdoms],
      ''quiz_levels'' := [level_unlimited])"

text \<open>Two users, each with a student profile of their own.\<close>

definition user_budi :: row where
  "user_budi = [(''id'', VInt 2), (''username'', VStr ''budi''), (''email'', VStr ''b@x.com''),
     (''full_name'', VStr ''Budi''), (''is_teacher'', VBool False),
     (''created_at'', VDatetime 0), (''updated_at'', VDatetime 0)]"

definition student_budi :: row where
  "student_budi = [(''id'', VInt 2), (''user_id'', VInt 2),
     (''grade'', VEnum (E_StudentGrade GRADE_5)), (''school_name'', VStr ''SDN 1''),
     (''total_points'', VInt 0), (''current_level'', VInt 1), (''streak_days'', VInt 0),
     (''last_activity'', VNone)]"

definition db_two_students :: db where
  "db_two_students = empty_db
     (''users'' := [user_ana, user_budi],
      ''student_profiles'' := [student_ana, student_budi])"






section \<open>Storing and loading a decimal column\<close>








section \<open>Further notions used in the statements\<close>

text \<open>The string values of an enumeration class, in definition order.\<close>

definition enum_values :: "enum_class \<Rightarrow> string list" where
  "enum_values c = map member_value (members c)"



section \<open>Round trip of the enumeration values\<close>

lemma StudentGrade_roundtrip: "StudentGrade_of (StudentGrade_value m) = Some m"
  by (cases m) (simp_all add: StudentGrade_of_def enum_by_value_def StudentGrade_members_def)

lemma QuestionDifficulty_roundtrip: "QuestionDifficulty_of (QuestionDifficulty_value m) = Some m"
  by (cases m)
    (simp_all add: QuestionDifficulty_of_def enum_by_value_def QuestionDifficulty_members_def)

lemma QuestionType_roundtrip: "QuestionType_of (QuestionType_value m) = Some m"
  by (cases m) (simp_all add: QuestionType_of_def enum_by_value_def QuestionType_members_def)

lemma BadgeType_roundtrip: "BadgeType_of (BadgeType_value m) = Some m"
  by (cases m) (simp_all add: BadgeType_of_def enum_by_value_def BadgeType_members_def)

lemma MediaType_roundtrip: "MediaType_of (MediaType_value m) = Some m"
  by (cases m) (simp_all add: MediaType_of_def enum_by_value_def MediaType_members_def)

lemma ARTriggerType_roundtrip: "ARTriggerType_of (ARTriggerType_value m) = Some m"
  by (cases m) (simp_all add: ARTriggerType_of_def enum_by_value_def ARTriggerType_members_def)

lemma StudentGrade_values: "map StudentGrade_value StudentGrade_members = [''4'', ''5'', ''6'']"
  by (simp add: StudentGrade_members_def)

lemma QuestionDifficulty_values:
  "map QuestionDifficulty_value QuestionDifficulty_members = [''easy'', ''medium'', ''hard'']"
  by (simp add: QuestionDifficulty_members_def)

lemma QuestionType_values:
  "map QuestionType_value QuestionType_members
     = [''multiple_choice'', ''true_false'', ''short_answer'']"
  by (simp add: QuestionType_members_def)

lemma BadgeType_values:
  "map BadgeType_value BadgeType_members
     = [''level_completion'', ''streak'', ''perfect_score'', ''explorer'', ''scholar'']"
  by (simp add: BadgeType_members_def)

lemma MediaType_values:
  "map MediaType_value MediaType_members
     = [''image'', ''audio'', ''video'', ''document'', ''model_3d'']"
  by (simp add: MediaType_members_def)

lemma ARTriggerType_values:
  "map ARTriggerType_value ARTriggerType_members
     = [''banknote'', ''stamp'', ''textbook_image'', ''qr_code'']"
  by (simp add: ARTriggerType_members_def)

lemma StudentGrade_members_all: "set StudentGrade_members = UNIV"
proof -
  have "m \<in> set StudentGrade_members" for m
    by (cases m) (simp_all add: StudentGrade_members_def)
  then show ?thesis by blast
qed

lemma QuestionDifficulty_members_all: "set QuestionDifficulty_members = UNIV"
proof -
  have "m \<in> set QuestionDifficulty_members" for m
    by (cases m) (simp_all add: QuestionDifficulty_members_def)
  then show ?thesis by blast
qed

lemma QuestionType_members_all: "set QuestionType_members = UNIV"
proof -
  have "m \<in> set QuestionType_members" for m
    by (cases m) (simp_all add: QuestionType_members_def)
  then show ?thesis by blast
qed

lemma BadgeType_members_all: "set BadgeType_members = UNIV"
proof -
  have "m \<in> set BadgeType_members" for m
    by (cases m) (simp_all add: BadgeType_members_def)
  then show ?thesis by blast
qed

lemma MediaType_members_all: "set MediaType_members = UNIV"
proof -
  have "m \<in> set MediaType_members" for m
    by (cases m) (simp_all add: MediaType_members_def)
  then show ?thesis by blast
qed

lemma ARTriggerType_members_all: "set ARTriggerType_members = UNIV"
proof -
  have "m \<in> set ARTriggerType_members" for m
    by (cases m) (simp_all add: ARTriggerType_members_def)
  then show ?thesis by blast
qed

text \<open>
  C7. For each of the six enumerations, looking up the string value of a member yields
  that member again, and the values of the members, in definition order, are exactly
  4, 5, 6; easy, medium, hard; multiple_choice, true_false, short_answer;
  level_completion, streak, perfect_score, explorer, scholar; image, audio, video,
  document, model_3d; banknote, stamp, textbook_image, qr_code. The listed members are
  all the members of each enumeration.
\<close>

theorem enum_values_roundtrip:
  "StudentGrade_of (StudentGrade_value g) = Some g
   \<and> QuestionDifficulty_of (QuestionDifficulty_value d) = Some d
   \<and> QuestionType_of (QuestionType_value q) = Some q
   \<and> BadgeType_of (BadgeType_value b) = Some b
   \<and> MediaType_of (MediaType_value t) = Some t
   \<and> ARTriggerType_of (ARTriggerType_value a) = Some a
   \<and> range StudentGrade_value = {''4'', ''5'', ''6''}
   \<and> range QuestionDifficulty_value = {''easy'', ''medium'', ''hard''}
   \<and> range QuestionType_value = {''multiple_choice'', ''true_false'', ''short_answer''}
   \<and> range BadgeType_value
       = {''level_completion'', ''streak'', ''perfect_score'', ''explorer'', ''scholar''}
   \<and> range MediaType_value = {''image'', ''audio'', ''video'', ''document'', ''model_3d''}
   \<and> range ARTriggerType_value = {''banknote'', ''stamp'', ''textbook_image'', ''qr_code''}"
proof -
  have r1: "range StudentGrade_value = set (map StudentGrade_value StudentGrade_members)"
    by (simp add: StudentGrade_members_all)
  have r2: "range QuestionDifficulty_value
      = set (map QuestionDifficulty_value QuestionDifficulty_members)"
    by (simp add: QuestionDifficulty_members_all)
  have r3: "range QuestionType_value = set (map QuestionType_value QuestionType_members)"
    by (simp add: QuestionType_members_all)
  have r4: "range BadgeType_value = set (map BadgeType_value BadgeType_members)"
    by (simp add: BadgeType_members_all)
  have r5: "range MediaType_value = set (map MediaType_value MediaType_members)"
    by (simp add: MediaType_members_all)
  have r6: "range ARTriggerType_value = set (map ARTriggerType_value ARTriggerType_members)"
    by (simp add: ARTriggerType_members_all)
  show ?thesis
    unfolding r1 r2 r3 r4 r5 r6
    unfolding StudentGrade_values QuestionDifficulty_values QuestionType_values
      BadgeType_values MediaType_values ARTriggerType_values
    by (simp add: StudentGrade_roundtrip QuestionDifficulty_roundtrip QuestionType_roundtrip
        BadgeType_roundtrip MediaType_roundtrip ARTriggerType_roundtrip)
qed

section \<open>Validation: what acceptance means\<close>

lemma validate_fields_no_errors:
  "fst (validate_fields lax now fs inp) = []
     \<longleftrightarrow> (\<forall>f \<in> set fs. \<exists>v. validate_field lax now f (inp (fname f)) = Inr v)"
proof (induction fs)
  case Nil
  show ?case by simp
next
  case (Cons f fs)
  show ?case
  proof (cases "validate_field lax now f (inp (fname f))")
    case (Inl e)
    then show ?thesis by (simp add: split_beta)
  next
    case (Inr v)
    then show ?thesis using Cons.IH by (simp add: split_beta)
  qed
qed

lemma validate_fields_row:
  "fst (validate_fields lax now fs inp) = []
     \<Longrightarrow> snd (validate_fields lax now fs inp)
         = map (\<lambda>f. (fname f, projr (validate_field lax now f (inp (fname f))))) fs"
proof (induction fs)
  case Nil
  show ?case by simp
next
  case (Cons f fs)
  from Cons.prems obtain v where v: "validate_field lax now f (inp (fname f)) = Inr v"
    by (cases "validate_field lax now f (inp (fname f))") (simp_all add: split_beta)
  with Cons.prems have "fst (validate_fields lax now fs inp) = []"
    by (simp add: split_beta)
  with Cons.IH v show ?case by (simp add: split_beta)
qed

lemma validate_model_Inr_iff:
  "validate_model lax now m inp = Inr r
     \<longleftrightarrow> (\<forall>f \<in> set (fields m). \<exists>v. validate_field lax now f (inp (fname f)) = Inr v)
         \<and> r = map (\<lambda>f. (fname f, projr (validate_field lax now f (inp (fname f)))))
               (fields m)"
proof (cases "fst (validate_fields lax now (fields m) inp)")
  case Nil
  have "validate_model lax now m inp = Inr (snd (validate_fields lax now (fields m) inp))"
    using Nil by (simp add: validate_model_def split_beta)
  then show ?thesis
    using Nil validate_fields_no_errors [of lax now "fields m" inp]
      validate_fields_row [of lax now "fields m" inp] by auto
next
  case (Cons e errs)
  have "validate_model lax now m inp = Inl (e # errs)"
    using Cons by (simp add: validate_model_def split_beta)
  then show ?thesis
    using Cons validate_fields_no_errors [of lax now "fields m" inp] by auto
qed

lemma validate_model_isl_iff:
  "isl (validate_model lax now m inp)
     \<longleftrightarrow> (\<exists>f \<in> set (fields m). isl (validate_field lax now f (inp (fname f))))"
proof -
  have "isl (validate_model lax now m inp) \<longleftrightarrow> (\<forall>r. validate_model lax now m inp \<noteq> Inr r)"
    by (cases "validate_model lax now m inp") simp_all
  also have "\<dots>
      \<longleftrightarrow> \<not> (\<forall>f \<in> set (fields m). \<exists>v. validate_field lax now f (inp (fname f)) = Inr v)"
    by (simp add: validate_model_Inr_iff)
  also have "\<dots> \<longleftrightarrow> (\<exists>f \<in> set (fields m). isl (validate_field lax now f (inp (fname f))))"
  proof -
    have "(\<exists>v. x = Inr v) \<longleftrightarrow> \<not> isl x" for x :: "field_error + val"
      by (cases x) simp_all
    then show ?thesis by simp
  qed
  finally show ?thesis .
qed

lemma validate_value_Inr_iff:
  "validate_value lax f v = Inr v'
     \<longleftrightarrow> validate_type lax (annotation f) v = Some v'
         \<and> (\<forall>k \<in> set (kws f). check_kw (kws f) k v')"
proof (cases "validate_type lax (annotation f) v")
  case None
  then show ?thesis by (simp add: validate_value_def)
next
  case (Some w)
  show ?thesis
  proof (cases "filter (\<lambda>k. \<not> check_kw (kws f) k w) (kws f)")
    case Nil
    then have "\<forall>k \<in> set (kws f). check_kw (kws f) k w"
      by (simp add: filter_empty_conv)
    with Some Nil show ?thesis by (auto simp: validate_value_def)
  next
    case (Cons k ks)
    then have "k \<in> set (filter (\<lambda>k. \<not> check_kw (kws f) k w) (kws f))" by simp
    then have "k \<in> set (kws f)" "\<not> check_kw (kws f) k w" by simp_all
    with Some Cons show ?thesis by (auto simp: validate_value_def)
  qed
qed


lemma validate_field_supplied [simp]:
  "validate_field lax now f (Some v) = validate_value lax f v"
  by (simp add: validate_field_def)

lemma validate_field_default:
  "validate_field lax now f None
     = (case default_value now (kws f) of None \<Rightarrow> Inl Missing | Some v \<Rightarrow> Inr v)"
  by (simp add: validate_field_def)

lemma of_type_validate_scalar [simp]:
  "of_type a v \<Longrightarrow> validate_scalar lax a v = Some v"
  by (simp add: validate_scalar_def)



lemma of_type_str: "of_type T_str v \<longleftrightarrow> (\<exists>s. v = VStr s)"
  by (cases v) simp_all


lemma construct_table:
  "tablename m = Some t \<Longrightarrow>
   construct lax now m kwargs
     = Inr (map (\<lambda>f. (fname f,
              (case kwargs (fname f) of
                 Some v \<Rightarrow> v
               | None \<Rightarrow> (case default_value now (kws f) of Some v \<Rightarrow> v | None \<Rightarrow> VNone))))
            (fields m))"
  by (simp add: construct_def)


section \<open>Valid rows are what validation returns\<close>

lemma map_of_row_column:
  assumes "n \<in> fst ` set r"
  shows "map_of r n = Some (column n r)"
proof -
  from assms obtain v where "map_of r n = Some v"
    by (cases "map_of r n") (auto simp: map_of_eq_None_iff)
  then show ?thesis by (simp add: column_def)
qed

lemma row_by_columns:
  assumes "distinct (map fst r)"
  shows "r = map (\<lambda>n. (n, column n r)) (map fst r)"
proof -
  have "(n, v) \<in> set r \<Longrightarrow> column n r = v" for n v
    using assms by (simp add: column_def)
  then have "\<forall>x \<in> set r. (fst x, column (fst x) r) = x"
    by auto
  then have "map (\<lambda>x. (fst x, column (fst x) r)) r = r"
    by (simp add: map_idI)
  then show ?thesis by (simp add: comp_def)
qed

lemma those_map_mono:
  assumes "\<And>x y. x \<in> set xs \<Longrightarrow> g x = Some y \<Longrightarrow> h x = Some y"
    and "those (map g xs) = Some ys"
  shows "those (map h xs) = Some ys"
  using assms
proof (induction xs arbitrary: ys)
  case Nil
  then show ?case by simp
next
  case (Cons x xs)
  from Cons.prems(2) obtain y zs where y: "g x = Some y"
    and zs: "those (map g xs) = Some zs" and ys: "ys = y # zs"
    by (auto split: option.splits)
  from Cons.prems(1) y have "h x = Some y" by simp
  moreover from Cons.IH [OF _ zs] Cons.prems(1) have "those (map h xs) = Some zs" by simp
  ultimately show ?case using ys by simp
qed

lemma strict_validate_scalar_any_conversions:
  "validate_scalar no_conversion a v = Some w \<Longrightarrow> validate_scalar lax a v = Some w"
  by (cases "of_type a v") (simp_all add: validate_scalar_def no_conversion_def)

lemma strict_validate_type_any_conversions:
  "validate_type no_conversion a v = Some w \<Longrightarrow> validate_type lax a v = Some w"
proof (induction a arbitrary: v w)
  case T_int
  then show ?case using strict_validate_scalar_any_conversions [of T_int v w lax] by simp
next
  case T_str
  then show ?case using strict_validate_scalar_any_conversions [of T_str v w lax] by simp
next
  case T_bool
  then show ?case using strict_validate_scalar_any_conversions [of T_bool v w lax] by simp
next
  case T_datetime
  then show ?case using strict_validate_scalar_any_conversions [of T_datetime v w lax] by simp
next
  case T_Decimal
  then show ?case using strict_validate_scalar_any_conversions [of T_Decimal v w lax] by simp
next
  case (T_Enum c)
  then show ?case by simp
next
  case (T_List a)
  from T_List.prems obtain xs where v: "v = VList xs"
    by (cases v) simp_all
  with T_List.prems obtain ys
    where ys: "those (map (validate_type no_conversion a) xs) = Some ys" and w: "w = VList ys"
    by auto
  from ys have "those (map (validate_type lax a) xs) = Some ys"
    by (rule those_map_mono [rotated]) (rule T_List.IH)
  with v w show ?case by simp
next
  case T_Dict_str_Any
  then show ?case by simp
next
  case (T_Optional a)
  show ?case
  proof (cases "v = VNone")
    case True
    with T_Optional.prems show ?thesis by simp
  next
    case False
    with T_Optional.prems have "validate_type no_conversion a v = Some w" by simp
    then have "validate_type lax a v = Some w" by (rule T_Optional.IH)
    with False show ?thesis by simp
  qed
qed

lemma strict_validate_value_any_conversions:
  assumes "validate_value no_conversion f v = Inr w"
  shows "validate_value lax f v = Inr w"
proof -
  from assms have t: "validate_type no_conversion (annotation f) v = Some w"
    and c: "\<forall>k \<in> set (kws f). check_kw (kws f) k w"
    unfolding validate_value_Inr_iff by simp_all
  from t have "validate_type lax (annotation f) v = Some w"
    by (rule strict_validate_type_any_conversions)
  with c show ?thesis
    unfolding validate_value_Inr_iff by simp
qed

lemma row_valid_validate_model:
  assumes "row_valid m r" and "distinct (map fname (fields m))"
  shows "validate_model lax now m (map_of r) = Inr r"
proof -
  from assms(1) have names: "map fst r = map fname (fields m)"
    and vals: "\<forall>f \<in> set (fields m).
      validate_value no_conversion f (column (fname f) r) = Inr (column (fname f) r)"
    by (simp_all add: row_valid_def list_all_iff)
  have field: "validate_field lax now f (map_of r (fname f)) = Inr (column (fname f) r)"
    if "f \<in> set (fields m)" for f
  proof -
    from that have "fname f \<in> set (map fname (fields m))" by simp
    with names have "fname f \<in> fst ` set r" by (metis set_map)
    then have "map_of r (fname f) = Some (column (fname f) r)"
      by (rule map_of_row_column)
    moreover from vals that
    have "validate_value no_conversion f (column (fname f) r) = Inr (column (fname f) r)"
      by blast
    then have "validate_value lax f (column (fname f) r) = Inr (column (fname f) r)"
      by (rule strict_validate_value_any_conversions)
    ultimately show ?thesis by simp
  qed
  from assms(2) names have "distinct (map fst r)" by simp
  then have "r = map (\<lambda>n. (n, column n r)) (map fst r)"
    by (rule row_by_columns)
  with names have "r = map (\<lambda>f. (fname f, column (fname f) r)) (fields m)"
    by (simp add: comp_def)
  also have "\<dots> = map (\<lambda>f. (fname f, projr (validate_field lax now f (map_of r (fname f)))))
      (fields m)"
    using field by simp
  finally show ?thesis
    unfolding validate_model_Inr_iff using field by blast
qed

lemma schema_field_names_distinct:
  "list_all (\<lambda>m. distinct (map fname (fields m))) schema"
  by code_simp

lemma schema_table_names_distinct:
  "distinct (map tablename (filter (\<lambda>m. tablename m \<noteq> None) schema))"
  by code_simp

section \<open>Bounded integer attributes\<close>












section \<open>Enumeration-typed attributes\<close>

lemma check_kw_enum [simp]: "check_kw ks k (VEnum e)"
  by (cases k) simp_all

lemma enum_of_Some_iff:
  "(\<exists>e. enum_of c s = Some e) \<longleftrightarrow> s \<in> set (enum_values c)"
proof -
  have "(\<exists>e. enum_of c s = Some e) \<longleftrightarrow> enum_of c s \<noteq> None" by simp
  also have "\<dots> \<longleftrightarrow> (\<exists>e \<in> set (members c). member_value e = s)"
    by (auto simp: enum_of_def enum_by_value_def find_None_iff)
  also have "\<dots> \<longleftrightarrow> s \<in> set (enum_values c)"
    by (auto simp: enum_values_def)
  finally show ?thesis .
qed

lemma enum_of_value:
  assumes "enum_of c s = Some e"
  shows "member_value e = s \<and> e \<in> set (members c)"
proof -
  from assms have "find (\<lambda>m. member_value m = s) (members c) = Some e"
    by (simp add: enum_of_def enum_by_value_def)
  then obtain i where "i < length (members c)" "member_value (members c ! i) = s"
    "e = members c ! i"
    unfolding find_Some_iff by blast
  then show ?thesis by auto
qed

lemma enum_field_accepts_iff:
  assumes "annotation f = T_Enum c"
  shows "(\<exists>v. validate_field lax now f (Some (VStr s)) = Inr v) \<longleftrightarrow> s \<in> set (enum_values c)"
proof
  assume "\<exists>v. validate_field lax now f (Some (VStr s)) = Inr v"
  then obtain v where "validate_value lax f (VStr s) = Inr v" by auto
  with assms have "map_option VEnum (enum_of c s) = Some v"
    by (simp add: validate_value_Inr_iff)
  then have "\<exists>e. enum_of c s = Some e" by auto
  then show "s \<in> set (enum_values c)" by (simp add: enum_of_Some_iff)
next
  assume "s \<in> set (enum_values c)"
  then obtain e where "enum_of c s = Some e"
    using enum_of_Some_iff [of c s] by blast
  with assms have "validate_value lax f (VStr s) = Inr (VEnum e)"
    by (simp add: validate_value_Inr_iff)
  then show "\<exists>v. validate_field lax now f (Some (VStr s)) = Inr v" by simp
qed

lemma enum_field_accepted_value:
  assumes "annotation f = T_Enum c" and "validate_field lax now f (Some (VStr s)) = Inr v"
  shows "\<exists>e. v = VEnum e \<and> member_value e = s \<and> e \<in> set (members c)"
proof -
  from assms have "map_option VEnum (enum_of c s) = Some v"
    by (simp add: validate_value_Inr_iff)
  then obtain e where "enum_of c s = Some e" "v = VEnum e" by auto
  with enum_of_value [of c s e] show ?thesis by simp
qed

lemma enum_field_rejects:
  assumes "f \<in> set (fields m)" and "annotation f = T_Enum c"
    and "inp (fname f) = Some (VStr s)" and "s \<notin> set (enum_values c)"
  shows "isl (validate_model lax now m inp)"
proof -
  have "\<not> (\<exists>v. validate_field lax now f (Some (VStr s)) = Inr v)"
    using enum_field_accepts_iff [OF assms(2), of lax now s] assms(4) by blast
  then have "isl (validate_field lax now f (inp (fname f)))"
    using assms(3) by (cases "validate_field lax now f (Some (VStr s))") simp_all
  with assms(1) show ?thesis
    unfolding validate_model_isl_iff by blast
qed

lemma enum_values_StudentGrade: "enum_values C_StudentGrade = [''4'', ''5'', ''6'']"
  by (simp add: enum_values_def StudentGrade_members_def)

lemma enum_values_QuestionDifficulty:
  "enum_values C_QuestionDifficulty = [''easy'', ''medium'', ''hard'']"
  by (simp add: enum_values_def QuestionDifficulty_members_def)

lemma enum_values_QuestionType:
  "enum_values C_QuestionType = [''multiple_choice'', ''true_false'', ''short_answer'']"
  by (simp add: enum_values_def QuestionType_members_def)

lemma enum_values_BadgeType:
  "enum_values C_BadgeType
     = [''level_completion'', ''streak'', ''perfect_score'', ''explorer'', ''scholar'']"
  by (simp add: enum_values_def BadgeType_members_def)

lemma enum_values_MediaType:
  "enum_values C_MediaType = [''image'', ''audio'', ''video'', ''document'', ''model_3d'']"
  by (simp add: enum_values_def MediaType_members_def)

lemma enum_values_ARTriggerType:
  "enum_values C_ARTriggerType = [''banknote'', ''stamp'', ''textbook_image'', ''qr_code'']"
  by (simp add: enum_values_def ARTriggerType_members_def)

text \<open>
  C2. For every attribute of a model class that is annotated with one of the six
  enumerations, validation accepts a string exactly when it is one of the values of
  that enumeration (and then yields the member with that value), and an input that
  gives the attribute any other string is rejected as a whole. The values are 4, 5, 6
  for StudentGrade, and the listed ones for the other five; StudentProfile.grade is
  such an attribute.
\<close>

theorem enum_attributes_accept_exactly_their_values:
  "(f \<in> set (fields m) \<and> annotation f = T_Enum c \<longrightarrow>
      ((\<exists>v. validate_field lax now f (Some (VStr s)) = Inr v) \<longleftrightarrow> s \<in> set (enum_values c))
      \<and> (validate_field lax now f (Some (VStr s)) = Inr v
          \<longrightarrow> (\<exists>e. v = VEnum e \<and> member_value e = s \<and> e \<in> set (members c)))
      \<and> (inp (fname f) = Some (VStr s) \<and> s \<notin> set (enum_values c)
          \<longrightarrow> isl (validate_model lax now m inp)))
   \<and> enum_values C_StudentGrade = [''4'', ''5'', ''6'']
   \<and> enum_values C_QuestionDifficulty = [''easy'', ''medium'', ''hard'']
   \<and> enum_values C_QuestionType = [''multiple_choice'', ''true_false'', ''short_answer'']
   \<and> enum_values C_BadgeType
       = [''level_completion'', ''streak'', ''perfect_score'', ''explorer'', ''scholar'']
   \<and> enum_values C_MediaType = [''image'', ''audio'', ''video'', ''document'', ''model_3d'']
   \<and> enum_values C_ARTriggerType = [''banknote'', ''stamp'', ''textbook_image'', ''qr_code'']
   \<and> Field ''grade'' (T_Enum C_StudentGrade) [] \<in> set (fields StudentProfile)"
proof -
  have grade: "Field ''grade'' (T_Enum C_StudentGrade) [] \<in> set (fields StudentProfile)"
    by (simp add: StudentProfile_def)
  have field: "f \<in> set (fields m) \<and> annotation f = T_Enum c \<longrightarrow>
      ((\<exists>v. validate_field lax now f (Some (VStr s)) = Inr v) \<longleftrightarrow> s \<in> set (enum_values c))
      \<and> (validate_field lax now f (Some (VStr s)) = Inr v
          \<longrightarrow> (\<exists>e. v = VEnum e \<and> member_value e = s \<and> e \<in> set (members c)))
      \<and> (inp (fname f) = Some (VStr s) \<and> s \<notin> set (enum_values c)
          \<longrightarrow> isl (validate_model lax now m inp))"
    using enum_field_accepts_iff [of f c lax now s]
      enum_field_accepted_value [of f c lax now s v]
      enum_field_rejects [of f m c inp s lax now]
    by blast
  from field grade show ?thesis
    by (simp only: enum_values_StudentGrade enum_values_QuestionDifficulty
        enum_values_QuestionType enum_values_BadgeType enum_values_MediaType
        enum_values_ARTriggerType simp_thms)
qed

theorem enum_attributes_accept_exactly_their_values_witness:
  "(\<exists>v. validate_field int_conversions 0 (Field ''grade'' (T_Enum C_StudentGrade) [])
        (Some (VStr ''4'')) = Inr v)
   \<and> (\<exists>e. VEnum (E_StudentGrade GRADE_4) = VEnum e \<and> member_value e = ''4''
        \<and> e \<in> set (members C_StudentGrade))
   \<and> isl (validate_model int_conversions 0 StudentProfile
        [''user_id'' \<mapsto> VInt 1, ''grade'' \<mapsto> VStr ''7'', ''school_name'' \<mapsto> VStr ''SDN 1''])"
proof -
  let ?f = "Field ''grade'' (T_Enum C_StudentGrade) []"
  let ?inp = "[''user_id'' \<mapsto> VInt 1, ''grade'' \<mapsto> VStr ''7'', ''school_name'' \<mapsto> VStr ''SDN 1'']"
  note inst = enum_attributes_accept_exactly_their_values
    [where f = ?f and m = StudentProfile and c = C_StudentGrade and lax = int_conversions
      and now = 0 and v = "VEnum (E_StudentGrade GRADE_4)" and inp = ?inp]
  have mem: "?f \<in> set (fields StudentProfile) \<and> annotation ?f = T_Enum C_StudentGrade"
    by (simp add: StudentProfile_def)
  have four: "''4'' \<in> set (enum_values C_StudentGrade)"
    by (simp add: enum_values_def StudentGrade_members_def)
  have val: "validate_field int_conversions 0 ?f (Some (VStr ''4''))
      = Inr (VEnum (E_StudentGrade GRADE_4))"
    by (simp add: validate_value_def enum_of_def enum_by_value_def StudentGrade_members_def)
  have seven: "?inp (fname ?f) = Some (VStr ''7'') \<and> ''7'' \<notin> set (enum_values C_StudentGrade)"
    by (simp add: enum_values_def StudentGrade_members_def)
  from inst [where s = "''4''", THEN conjunct1] mem
  have a4: "((\<exists>v. validate_field int_conversions 0 ?f (Some (VStr ''4'')) = Inr v)
        \<longleftrightarrow> ''4'' \<in> set (enum_values C_StudentGrade))
      \<and> (validate_field int_conversions 0 ?f (Some (VStr ''4''))
            = Inr (VEnum (E_StudentGrade GRADE_4))
          \<longrightarrow> (\<exists>e. VEnum (E_StudentGrade GRADE_4) = VEnum e \<and> member_value e = ''4''
                \<and> e \<in> set (members C_StudentGrade)))
      \<and> (?inp (fname ?f) = Some (VStr ''4'') \<and> ''4'' \<notin> set (enum_values C_StudentGrade)
          \<longrightarrow> isl (validate_model int_conversions 0 StudentProfile ?inp))"
    by (rule mp)
  from inst [where s = "''7''", THEN conjunct1] mem
  have a7: "((\<exists>v. validate_field int_conversions 0 ?f (Some (VStr ''7'')) = Inr v)
        \<longleftrightarrow> ''7'' \<in> set (enum_values C_StudentGrade))
      \<and> (validate_field int_conversions 0 ?f (Some (VStr ''7''))
            = Inr (VEnum (E_StudentGrade GRADE_4))
          \<longrightarrow> (\<exists>e. VEnum (E_StudentGrade GRADE_4) = VEnum e \<and> member_value e = ''7''
                \<and> e \<in> set (members C_StudentGrade)))
      \<and> (?inp (fname ?f) = Some (VStr ''7'') \<and> ''7'' \<notin> set (enum_values C_StudentGrade)
          \<longrightarrow> isl (validate_model int_conversions 0 StudentProfile ?inp))"
    by (rule mp)
  from a4 [THEN conjunct1] four
  have c1: "\<exists>v. validate_field int_conversions 0 ?f (Some (VStr ''4'')) = Inr v"
    by (rule iffD2)
  from a4 [THEN conjunct2, THEN conjunct1] val
  have c2: "\<exists>e. VEnum (E_StudentGrade GRADE_4) = VEnum e \<and> member_value e = ''4''
      \<and> e \<in> set (members C_StudentGrade)"
    by (rule mp)
  from a7 [THEN conjunct2, THEN conjunct2] seven
  have c3: "isl (validate_model int_conversions 0 StudentProfile ?inp)"
    by (rule mp)
  from c1 c2 c3 show ?thesis by (intro conjI)
qed

section \<open>The decimal completion percentage\<close>















lemma completion_percentage_accepts_trailing_zeros:
  "validate_value no_conversion
     (Field ''completion_percentage'' T_Decimal
       [default (VDecimal (Decimal 0 0)), max_digits 5, decimal_places 2])
     (VDecimal (Decimal 1000 (- 3))) = Inr (VDecimal (Decimal 1000 (- 3)))"
  "validate_value no_conversion
     (Field ''completion_percentage'' T_Decimal
       [default (VDecimal (Decimal 0 0)), max_digits 5, decimal_places 2])
     (VDecimal (Decimal 0 10)) = Inr (VDecimal (Decimal 0 10))"
  "isl (validate_value no_conversion
     (Field ''completion_percentage'' T_Decimal
       [default (VDecimal (Decimal 0 0)), max_digits 5, decimal_places 2])
     (VDecimal (Decimal 1001 (- 3))))"
  "isl (validate_value no_conversion
     (Field ''completion_percentage'' T_Decimal
       [default (VDecimal (Decimal 0 0)), max_digits 5, decimal_places 2])
     (VDecimal (Decimal 1000 0)))"
  by code_simp+



section \<open>String attributes with a maximal length\<close>









section \<open>Constraints on the database state\<close>

lemma constraints_of_column:
  assumes "satisfies_constraints db" and "m \<in> set schema" and "tablename m = Some t"
    and "f \<in> set (fields m)"
  shows "column_constraints db (db t) f"
proof -
  from assms(1,2) have "table_constraints db m"
    by (simp add: satisfies_constraints_def list_all_iff)
  with assms(3) have "list_all (column_constraints db (db t)) (fields m)"
    by (simp add: table_constraints_def)
  with assms(4) show ?thesis
    by (simp add: list_all_iff)
qed

lemma unique_not_null_distinct:
  assumes "column_constraints db rs f" and "unique \<in> set (kws f)" and "\<not> nullable f"
  shows "distinct (map (column (fname f)) rs)"
proof -
  let ?col = "map (column (fname f)) rs"
  from assms(1,3) have nn: "VNone \<notin> set ?col"
    by (simp add: column_constraints_def)
  from assms(1) have "\<forall>k \<in> set (kws f). kw_holds db ?col k"
    by (simp add: column_constraints_def list_all_iff)
  with assms(2) have "kw_holds db ?col unique"
    by blast
  then have "distinct (filter (\<lambda>v. v \<noteq> VNone) ?col)"
    by simp
  moreover from nn have "filter (\<lambda>v. v \<noteq> VNone) ?col = ?col"
    by (intro filter_True) (metis (full_types))
  ultimately show ?thesis by simp
qed

lemma distinct_at_most_one:
  "distinct (map g xs) \<Longrightarrow> length (filter (\<lambda>x. g x = a) xs) \<le> 1"
proof (induction xs)
  case Nil
  show ?case by simp
next
  case (Cons x xs)
  show ?case
  proof (cases "g x = a")
    case True
    with Cons.prems have "a \<notin> g ` set xs" by auto
    then have "filter (\<lambda>y. g y = a) xs = []"
      by (auto simp: filter_empty_conv)
    with True show ?thesis by simp
  next
    case False
    with Cons show ?thesis by simp
  qed
qed

lemma student_profiles_user_id_distinct:
  assumes "satisfies_constraints db"
  shows "distinct (map (column ''user_id'') (db ''student_profiles''))"
proof -
  let ?f = "Field ''user_id'' T_int [foreign_key ''users.id'', unique]"
  have "column_constraints db (db ''student_profiles'') ?f"
    using assms
    by (rule constraints_of_column [of db StudentProfile])
      (simp_all add: schema_def StudentProfile_def)
  then have "distinct (map (column (fname ?f)) (db ''student_profiles''))"
    by (rule unique_not_null_distinct) (simp_all add: nullable_def)
  then show ?thesis by simp
qed

lemma teacher_profiles_user_id_distinct:
  assumes "satisfies_constraints db"
  shows "distinct (map (column ''user_id'') (db ''teacher_profiles''))"
proof -
  let ?f = "Field ''user_id'' T_int [foreign_key ''users.id'', unique]"
  have "column_constraints db (db ''teacher_profiles'') ?f"
    using assms
    by (rule constraints_of_column [of db TeacherProfile])
      (simp_all add: schema_def TeacherProfile_def)
  then have "distinct (map (column (fname ?f)) (db ''teacher_profiles''))"
    by (rule unique_not_null_distinct) (simp_all add: nullable_def)
  then show ?thesis by simp
qed

lemma duplicate_profile_violates:
  "\<not> satisfies_constraints
      (db_both_profiles(''student_profiles'' := [student_ana, (''id'', VInt 2) # tl student_ana]))"
  by code_simp

lemma dangling_profile_violates:
  "\<not> satisfies_constraints (db_both_profiles(''users'' := []))"
  by code_simp

text \<open>
  C5. In every database state that satisfies the constraints of the schema, no two
  rows of student_profiles have the same user_id, and no two rows of teacher_profiles
  have: for every value, at most one row of either table has it as its user_id, so a
  user owns at most one profile of each kind.
\<close>

theorem at_most_one_profile_of_each_kind:
  assumes "satisfies_constraints db"
  shows "distinct (map (column ''user_id'') (db ''student_profiles''))
    \<and> distinct (map (column ''user_id'') (db ''teacher_profiles''))
    \<and> length (filter (\<lambda>r. column ''user_id'' r = u) (db ''student_profiles'')) \<le> 1
    \<and> length (filter (\<lambda>r. column ''user_id'' r = u) (db ''teacher_profiles'')) \<le> 1"
  using student_profiles_user_id_distinct [OF assms]
    teacher_profiles_user_id_distinct [OF assms]
    distinct_at_most_one [of "column ''user_id''" "db ''student_profiles''" u]
    distinct_at_most_one [of "column ''user_id''" "db ''teacher_profiles''" u]
  by blast

theorem at_most_one_profile_of_each_kind_witness:
  "satisfies_constraints db_two_students
   \<and> distinct (map (column ''user_id'') (db_two_students ''student_profiles''))
   \<and> length (filter (\<lambda>r. column ''user_id'' r = VInt 2) (db_two_students ''student_profiles''))
       \<le> 1"
proof -
  have ok: "satisfies_constraints db_two_students"
    by code_simp
  from at_most_one_profile_of_each_kind [OF ok, of "VInt 2"] ok
  show ?thesis by simp
qed

text \<open>
  C6. Role exclusivity is not enforced: the database state in which one user has both
  a student profile and a teacher profile satisfies every constraint of the schema
  (nullability, primary keys, uniqueness, foreign keys) and all its rows are valid
  (types and bounds); validation accepts both profiles as they are, whatever its conversions.
\<close>

theorem both_profiles_for_one_user:
  "satisfies_schema db_both_profiles
   \<and> db_both_profiles ''users'' = [user_ana]
   \<and> db_both_profiles ''student_profiles'' = [student_ana]
   \<and> db_both_profiles ''teacher_profiles'' = [teacher_ana]
   \<and> column ''user_id'' student_ana = column ''id'' user_ana
   \<and> column ''user_id'' teacher_ana = column ''id'' user_ana
   \<and> validate_model lax 0 StudentProfile (map_of student_ana) = Inr student_ana
   \<and> validate_model lax 0 TeacherProfile (map_of teacher_ana) = Inr teacher_ana"
proof -
  have "satisfies_schema db_both_profiles"
    by code_simp
  moreover have "validate_model lax 0 StudentProfile (map_of student_ana) = Inr student_ana"
    by (simp add: validate_model_def StudentProfile_def student_ana_def validate_value_def)
  moreover have "validate_model lax 0 TeacherProfile (map_of teacher_ana) = Inr teacher_ana"
    by (simp add: validate_model_def TeacherProfile_def teacher_ana_def validate_value_def)
  moreover have "db_both_profiles ''users'' = [user_ana]"
    "db_both_profiles ''student_profiles'' = [student_ana]"
    "db_both_profiles ''teacher_profiles'' = [teacher_ana]"
    by (simp_all add: db_both_profiles_def)
  moreover have "column ''user_id'' student_ana = column ''id'' user_ana"
    "column ''user_id'' teacher_ana = column ''id'' user_ana"
    by (simp_all add: column_def student_ana_def teacher_ana_def user_ana_def)
  ultimately show ?thesis by simp
qed

text \<open>
  C9. Self-loops are permitted: the database state with one vocabulary term and a
  TermConnection whose source and target are both that term satisfies every constraint
  of the schema and all its rows are valid; validation accepts the connection as it is, whatever its conversions.
\<close>

theorem self_loop_term_connection:
  "satisfies_schema db_self_loop
   \<and> db_self_loop ''vocabulary_terms'' = [term_majapahit]
   \<and> db_self_loop ''term_connections'' = [self_connection]
   \<and> column ''source_term_id'' self_connection = column ''id'' term_majapahit
   \<and> column ''target_term_id'' self_connection = column ''id'' term_majapahit
   \<and> validate_model lax 0 TermConnection (map_of self_connection) = Inr self_connection"
proof -
  have "satisfies_schema db_self_loop"
    by code_simp
  moreover have "validate_model lax 0 TermConnection (map_of self_connection) = Inr self_connection"
    by (simp add: validate_model_def TermConnection_def self_connection_def validate_value_def)
  moreover have "db_self_loop ''vocabulary_terms'' = [term_majapahit]"
    "db_self_loop ''term_connections'' = [self_connection]"
    by (simp_all add: db_self_loop_def)
  moreover have "column ''source_term_id'' self_connection = column ''id'' term_majapahit"
    "column ''target_term_id'' self_connection = column ''id'' term_majapahit"
    by (simp_all add: column_def self_connection_def term_majapahit_def)
  ultimately show ?thesis by simp
qed

section \<open>The status of an ARSession\<close>

lemma ARSession_status_field:
  "\<forall>f \<in> set (fields ARSession). fname f = ''completion_status''
     \<longrightarrow> f = Field ''completion_status'' T_str [default (VStr ''started'')]"
  by (simp add: ARSession_def)

lemma ARSession_status_column:
  assumes "validate_model lax now ARSession inp = Inr r"
  shows "column ''completion_status'' r
     = projr (validate_field lax now (Field ''completion_status'' T_str [default (VStr ''started'')])
         (inp ''completion_status''))"
  using assms unfolding validate_model_Inr_iff
  by (simp add: ARSession_def column_def)

lemma status_field_accepts:
  "validate_value lax (Field ''completion_status'' T_str [default (VStr ''started'')]) (VStr s)
     = Inr (VStr s)"
  by (simp add: validate_value_Inr_iff)

lemma ARSession_any_status_accepted:
  assumes "\<not> isl (validate_model lax now ARSession inp)"
  shows "\<not> isl (validate_model lax now ARSession (inp(''completion_status'' \<mapsto> VStr s)))"
proof
  let ?inp = "inp(''completion_status'' \<mapsto> VStr s)"
  assume "isl (validate_model lax now ARSession ?inp)"
  then obtain f where f: "f \<in> set (fields ARSession)"
      and bad: "isl (validate_field lax now f (?inp (fname f)))"
    unfolding validate_model_isl_iff by blast
  show False
  proof (cases "fname f = ''completion_status''")
    case True
    with f ARSession_status_field
    have "f = Field ''completion_status'' T_str [default (VStr ''started'')]" by blast
    with bad show False by (simp add: status_field_accepts)
  next
    case False
    with bad have "isl (validate_field lax now f (inp (fname f)))" by simp
    with f assms show False
      unfolding validate_model_isl_iff by blast
  qed
qed

text \<open>
  C8, as the code has it. The completion_status of an ARSession is an unconstrained
  string: a new ARSession for which no status is supplied has the status "started";
  one for which a string is supplied has that string as its status, whatever it is; and
  an input that validation accepts is still accepted when its status is replaced by any
  string.
\<close>

theorem completion_status_is_any_string:
  "(validate_model lax now ARSession inp = Inr r \<and> inp ''completion_status'' = None
      \<longrightarrow> column ''completion_status'' r = VStr ''started'')
   \<and> (validate_model lax now ARSession inp = Inr r \<and> inp ''completion_status'' = Some (VStr s)
      \<longrightarrow> column ''completion_status'' r = VStr s)
   \<and> (\<not> isl (validate_model lax now ARSession inp)
      \<longrightarrow> \<not> isl (validate_model lax now ARSession (inp(''completion_status'' \<mapsto> VStr s))))"
proof -
  have "column ''completion_status'' r = VStr ''started''"
    if "validate_model lax now ARSession inp = Inr r" "inp ''completion_status'' = None"
    using ARSession_status_column [OF that(1)] that(2)
    by (simp add: validate_field_default)
  moreover have "column ''completion_status'' r = VStr s"
    if "validate_model lax now ARSession inp = Inr r" "inp ''completion_status'' = Some (VStr s)"
    using ARSession_status_column [OF that(1)] that(2)
    by (simp add: validate_value_def)
  ultimately show ?thesis
    using ARSession_any_status_accepted [of lax now inp s] by blast
qed

theorem completion_status_is_any_string_witness:
  "column ''completion_status''
      [(''id'', VNone), (''student_id'', VNone), (''ar_experience_id'', VInt 1),
       (''session_start'', VDatetime 0), (''session_end'', VNone),
       (''duration_seconds'', VNone), (''interactions_count'', VInt 0),
       (''completion_status'', VStr ''started''), (''device_info'', VDict [])]
     = VStr ''started''
   \<and> column ''completion_status''
      [(''id'', VNone), (''student_id'', VNone), (''ar_experience_id'', VInt 1),
       (''session_start'', VDatetime 0), (''session_end'', VNone),
       (''duration_seconds'', VNone), (''interactions_count'', VInt 0),
       (''completion_status'', VStr ''completed''), (''device_info'', VDict [])]
     = VStr ''completed''
   \<and> \<not> isl (validate_model int_conversions 0 ARSession
       [''student_id'' \<mapsto> VNone, ''ar_experience_id'' \<mapsto> VInt 1,
        ''completion_status'' \<mapsto> VStr ''paused''])"
proof -
  let ?inp = "[''student_id'' \<mapsto> VNone, ''ar_experience_id'' \<mapsto> VInt 1]"
  let ?row = "[(''id'', VNone), (''student_id'', VNone), (''ar_experience_id'', VInt 1),
       (''session_start'', VDatetime 0), (''session_end'', VNone),
       (''duration_seconds'', VNone), (''interactions_count'', VInt 0),
       (''completion_status'', VStr ''started''), (''device_info'', VDict [])]"
  let ?inp2 = "[''student_id'' \<mapsto> VNone, ''ar_experience_id'' \<mapsto> VInt 1,
       ''completion_status'' \<mapsto> VStr ''completed'']"
  let ?row2 = "[(''id'', VNone), (''student_id'', VNone), (''ar_experience_id'', VInt 1),
       (''session_start'', VDatetime 0), (''session_end'', VNone),
       (''duration_seconds'', VNone), (''interactions_count'', VInt 0),
       (''completion_status'', VStr ''completed''), (''device_info'', VDict [])]"
  have ok: "validate_model int_conversions 0 ARSession ?inp = Inr ?row \<and> ?inp ''completion_status'' = None"
    by (simp add: validate_model_def ARSession_def validate_field_def validate_value_def)
  have ok2: "validate_model int_conversions 0 ARSession ?inp2 = Inr ?row2
      \<and> ?inp2 ''completion_status'' = Some (VStr ''completed'')"
    by (simp add: validate_model_def ARSession_def validate_field_def validate_value_def)
  from ok have acc: "\<not> isl (validate_model int_conversions 0 ARSession ?inp)"
    by simp
  have c1: "column ''completion_status'' ?row = VStr ''started''"
    using completion_status_is_any_string
      [where lax = int_conversions and now = 0 and inp = ?inp and r = ?row and s = "''paused''",
        THEN conjunct1] ok
    by (rule mp)
  have c2: "column ''completion_status'' ?row2 = VStr ''completed''"
    using completion_status_is_any_string
      [where lax = int_conversions and now = 0 and inp = ?inp2 and r = ?row2
        and s = "''completed''", THEN conjunct2, THEN conjunct1] ok2
    by (rule mp)
  have c3: "\<not> isl (validate_model int_conversions 0 ARSession (?inp(''completion_status'' \<mapsto> VStr ''paused'')))"
    using completion_status_is_any_string
      [where lax = int_conversions and now = 0 and inp = ?inp and r = ?row and s = "''paused''",
        THEN conjunct2, THEN conjunct2] acc
    by (rule mp)
  from c1 c2 c3 show ?thesis by (intro conjI)
qed

text \<open>
  C8, as stated, fails: validation accepts an ARSession whose completion_status is
  "paused", which is none of "started", "completed", "abandoned".
\<close>

theorem completion_status_counterexample:
  "validate_model int_conversions 0 ARSession
      [''student_id'' \<mapsto> VNone, ''ar_experience_id'' \<mapsto> VInt 1,
       ''completion_status'' \<mapsto> VStr ''paused'']
     = Inr [(''id'', VNone), (''student_id'', VNone), (''ar_experience_id'', VInt 1),
         (''session_start'', VDatetime 0), (''session_end'', VNone),
         (''duration_seconds'', VNone), (''interactions_count'', VInt 0),
         (''completion_status'', VStr ''paused''), (''device_info'', VDict [])]
   \<and> column ''completion_status''
       [(''id'', VNone), (''student_id'', VNone), (''ar_experience_id'', VInt 1),
        (''session_start'', VDatetime 0), (''session_end'', VNone),
        (''duration_seconds'', VNone), (''interactions_count'', VInt 0),
        (''completion_status'', VStr ''paused''), (''device_info'', VDict [])]
     = VStr ''paused''
   \<and> ''paused'' \<notin> {''started'', ''completed'', ''abandoned''}"
  by (simp add: validate_model_def ARSession_def validate_field_def validate_value_def
      column_def)

section \<open>The attempt limit of a QuizLevel\<close>

lemma QuizLevel_max_attempts_field:
  "\<forall>f \<in> set (fields QuizLevel). fname f = ''max_attempts''
     \<longrightarrow> f = Field ''max_attempts'' (T_Optional T_int) [default (VInt 3)]"
  by (simp add: QuizLevel_def)

lemma QuizLevel_max_attempts_column:
  assumes "validate_model lax now QuizLevel inp = Inr r"
  shows "column ''max_attempts'' r
     = projr (validate_field lax now (Field ''max_attempts'' (T_Optional T_int) [default (VInt 3)])
         (inp ''max_attempts''))"
  using assms unfolding validate_model_Inr_iff
  by (simp add: QuizLevel_def column_def)

lemma max_attempts_accepts_None:
  "validate_value lax (Field ''max_attempts'' (T_Optional T_int) [default (VInt 3)]) VNone = Inr VNone"
  by (simp add: validate_value_Inr_iff)

lemma QuizLevel_no_limit_accepted:
  assumes "\<not> isl (validate_model lax now QuizLevel inp)"
  shows "\<not> isl (validate_model lax now QuizLevel (inp(''max_attempts'' \<mapsto> VNone)))"
proof
  let ?inp = "inp(''max_attempts'' \<mapsto> VNone)"
  assume "isl (validate_model lax now QuizLevel ?inp)"
  then obtain f where f: "f \<in> set (fields QuizLevel)"
      and bad: "isl (validate_field lax now f (?inp (fname f)))"
    unfolding validate_model_isl_iff by blast
  show False
  proof (cases "fname f = ''max_attempts''")
    case True
    with f QuizLevel_max_attempts_field
    have "f = Field ''max_attempts'' (T_Optional T_int) [default (VInt 3)]" by blast
    with bad show False by (simp add: max_attempts_accepts_None)
  next
    case False
    with bad have "isl (validate_field lax now f (inp (fname f)))" by simp
    with f assms show False
      unfolding validate_model_isl_iff by blast
  qed
qed

lemma db_unlimited_level_ok: "satisfies_schema db_unlimited_level"
  by code_simp

text \<open>
  C10. A new QuizLevel for which max_attempts is not supplied has max_attempts 3. The
  attribute is optional: one for which \<^verbatim>\<open>None\<close> is supplied has max_attempts
  \<^verbatim>\<open>None\<close>, an accepted input is still accepted when its max_attempts is replaced by
  \<^verbatim>\<open>None\<close>, and a database state with a quiz level whose max_attempts is null satisfies
  the schema.
\<close>

theorem max_attempts_default_3_and_optional:
  "(validate_model lax now QuizLevel inp = Inr r \<and> inp ''max_attempts'' = None
      \<longrightarrow> column ''max_attempts'' r = VInt 3)
   \<and> (validate_model lax now QuizLevel inp = Inr r \<and> inp ''max_attempts'' = Some VNone
      \<longrightarrow> column ''max_attempts'' r = VNone)
   \<and> (\<not> isl (validate_model lax now QuizLevel inp)
      \<longrightarrow> \<not> isl (validate_model lax now QuizLevel (inp(''max_attempts'' \<mapsto> VNone))))
   \<and> satisfies_schema db_unlimited_level
   \<and> db_unlimited_level ''quiz_levels'' = [level_unlimited]
   \<and> column ''max_attempts'' level_unlimited = VNone"
proof -
  have "column ''max_attempts'' r = VInt 3"
    if "validate_model lax now QuizLevel inp = Inr r" "inp ''max_attempts'' = None"
    using QuizLevel_max_attempts_column [OF that(1)] that(2)
    by (simp add: validate_field_default)
  moreover have "column ''max_attempts'' r = VNone"
    if "validate_model lax now QuizLevel inp = Inr r" "inp ''max_attempts'' = Some VNone"
    using QuizLevel_max_attempts_column [OF that(1)] that(2)
    by (simp add: validate_value_def)
  moreover have "db_unlimited_level ''quiz_levels'' = [level_unlimited]"
    by (simp add: db_unlimited_level_def)
  moreover have "column ''max_attempts'' level_unlimited = VNone"
    by (simp add: level_unlimited_def column_def)
  ultimately show ?thesis
    using QuizLevel_no_limit_accepted [of lax now inp] db_unlimited_level_ok by blast
qed

theorem max_attempts_default_3_and_optional_witness:
  "column ''max_attempts''
      [(''id'', VNone), (''historical_period_id'', VInt 1), (''level_number'', VInt 1),
       (''title'', VStr ''Level 1''), (''description'', VStr ''First level''),
       (''unlock_points_required'', VInt 0), (''completion_points_reward'', VInt 10),
       (''max_attempts'', VInt 3), (''time_limit_minutes'', VNone)]
     = VInt 3
   \<and> column ''max_attempts''
      [(''id'', VNone), (''historical_period_id'', VInt 1), (''level_number'', VInt 1),
       (''title'', VStr ''Level 1''), (''description'', VStr ''First level''),
       (''unlock_points_required'', VInt 0), (''completion_points_reward'', VInt 10),
       (''max_attempts'', VNone), (''time_limit_minutes'', VNone)]
     = VNone
   \<and> \<not> isl (validate_model int_conversions 0 QuizLevel
       [''historical_period_id'' \<mapsto> VInt 1, ''level_number'' \<mapsto> VInt 1,
        ''title'' \<mapsto> VStr ''Level 1'', ''description'' \<mapsto> VStr ''First level'',
        ''completion_points_reward'' \<mapsto> VInt 10, ''max_attempts'' \<mapsto> VNone])"
proof -
  let ?inp = "[''historical_period_id'' \<mapsto> VInt 1, ''level_number'' \<mapsto> VInt 1,
        ''title'' \<mapsto> VStr ''Level 1'', ''description'' \<mapsto> VStr ''First level'',
        ''completion_points_reward'' \<mapsto> VInt 10]"
  let ?row = "[(''id'', VNone), (''historical_period_id'', VInt 1), (''level_number'', VInt 1),
       (''title'', VStr ''Level 1''), (''description'', VStr ''First level''),
       (''unlock_points_required'', VInt 0), (''completion_points_reward'', VInt 10),
       (''max_attempts'', VInt 3), (''time_limit_minutes'', VNone)]"
  let ?inp2 = "[''historical_period_id'' \<mapsto> VInt 1, ''level_number'' \<mapsto> VInt 1,
        ''title'' \<mapsto> VStr ''Level 1'', ''description'' \<mapsto> VStr ''First level'',
        ''completion_points_reward'' \<mapsto> VInt 10, ''max_attempts'' \<mapsto> VNone]"
  let ?row2 = "[(''id'', VNone), (''historical_period_id'', VInt 1), (''level_number'', VInt 1),
       (''title'', VStr ''Level 1''), (''description'', VStr ''First level''),
       (''unlock_points_required'', VInt 0), (''completion_points_reward'', VInt 10),
       (''max_attempts'', VNone), (''time_limit_minutes'', VNone)]"
  have ok: "validate_model int_conversions 0 QuizLevel ?inp = Inr ?row \<and> ?inp ''max_attempts'' = None"
    by (simp add: validate_model_def QuizLevel_def validate_field_def validate_value_def)
  have ok2: "validate_model int_conversions 0 QuizLevel ?inp2 = Inr ?row2
      \<and> ?inp2 ''max_attempts'' = Some VNone"
    by (simp add: validate_model_def QuizLevel_def validate_field_def validate_value_def)
  from ok have acc: "\<not> isl (validate_model int_conversions 0 QuizLevel ?inp)"
    by simp
  have c1: "column ''max_attempts'' ?row = VInt 3"
    using max_attempts_default_3_and_optional
      [where lax = int_conversions and now = 0 and inp = ?inp and r = ?row, THEN conjunct1] ok
    by (rule mp)
  have c2: "column ''max_attempts'' ?row2 = VNone"
    using max_attempts_default_3_and_optional
      [where lax = int_conversions and now = 0 and inp = ?inp2 and r = ?row2,
        THEN conjunct2, THEN conjunct1] ok2
    by (rule mp)
  have c3: "\<not> isl (validate_model int_conversions 0 QuizLevel (?inp(''max_attempts'' \<mapsto> VNone)))"
    using max_attempts_default_3_and_optional
      [where lax = int_conversions and now = 0 and inp = ?inp and r = ?row,
        THEN conjunct2, THEN conjunct2, THEN conjunct1] acc
    by (rule mp)
  from c1 c2 c3 show ?thesis by (intro conjI)
qed

end
